theory Spec2Isabelle
  imports Complex_Main "HOL-Library.Word" "HOL-Library.Signed_Division"
begin

unbundle bit_operations_syntax

section \<open>Machine types of ml.c\<close>

text \<open>
  The library is built for a 32-bit ARM target: \<open>long\<close>, \<open>unsigned long\<close> and \<open>int\<close> are
  32 bits wide, \<open>long long\<close> is 64 bits, \<open>unsigned short\<close> is 16 bits and the char types
  are 8 bits. A signed value is kept in a word and read with \<open>sint\<close>. A function pointer
  is its address, a natural number, and 0 is the null pointer.
\<close>

type_synonym u8 = "8 word"
type_synonym s8 = "8 word"
type_synonym u16 = "16 word"
type_synonym s32 = "32 word"
type_synonym u32 = "32 word"
type_synonym s64 = "64 word"
type_synonym func_ptr = nat

section \<open>Result codes, lifecycle states, device keys\<close>

text \<open>
  The result codes that ml.c names, and \<open>INV_ERROR n\<close> for any other non-zero code that a
  collaborator returns. \<open>if (result)\<close> in the source is \<open>result \<noteq> INV_SUCCESS\<close> here.
\<close>

datatype inv_error_t =
    INV_SUCCESS
  | INV_ERROR_SM_IMPROPER_STATE
  | INV_ERROR_INVALID_PARAMETER
  | INV_ERROR_FEATURE_NOT_IMPLEMENTED
  | INV_ERROR_SERIAL_DEVICE_NOT_RECOGNIZED
  | INV_ERROR nat

text \<open>
  Modelled from the spec: the lifecycle states of the header mlstates.h, which is not among
  the sources, and their ordinal: \<open>SERIAL_CLOSED\<close>, \<open>SERIAL_OPENED\<close>, \<open>DMP_OPENED\<close>,
  \<open>DMP_STARTED\<close>, linear and increasing.
\<close>

datatype inv_state =
    INV_STATE_SERIAL_CLOSED
  | INV_STATE_SERIAL_OPENED
  | INV_STATE_DMP_OPENED
  | INV_STATE_DMP_STARTED

fun state_ord :: "inv_state \<Rightarrow> nat" where
  "state_ord INV_STATE_SERIAL_CLOSED = 0"
| "state_ord INV_STATE_SERIAL_OPENED = 1"
| "state_ord INV_STATE_DMP_OPENED = 2"
| "state_ord INV_STATE_DMP_STARTED = 3"

text \<open>
  The symbolic device-memory keys that ml.c writes to. Their numbers are in dmpKey.h and
  play no role here.
\<close>

datatype dmp_key =
    KEY_FCFG_1 | KEY_FCFG_2 | KEY_FCFG_3 | KEY_FCFG_7
  | KEY_D_0_24 | KEY_D_0_96 | KEY_D_0_104 | KEY_D_0_108
  | KEY_D_1_96 | KEY_D_1_106 | KEY_D_1_152 | KEY_CFG_18
  | KEY_CPASS_MTX_00 | KEY_CPASS_MTX_01 | KEY_CPASS_MTX_02
  | KEY_CPASS_MTX_10 | KEY_CPASS_MTX_11 | KEY_CPASS_MTX_12
  | KEY_CPASS_MTX_20 | KEY_CPASS_MTX_21 | KEY_CPASS_MTX_22

datatype intsrc = INTSRC_MPU | INTSRC_AUX1

datatype motion = INV_MOTION | INV_NO_MOTION

datatype slave_config_key = MPU_SLAVE_CONFIG_ODR_RESUME | MPU_SLAVE_CONFIG_IRQ_RESUME

datatype slave_config_data =
    Odr s32
  | MPU_SLAVE_IRQ_TYPE_NONE
  | MPU_SLAVE_IRQ_TYPE_DATA_READY

text \<open>
  The full-scale setting of the gyroscope. The switch of \<open>inv_apply_calibration\<close> names four
  values; \<open>MPU_FS_OTHER\<close> stands for every value that takes its default branch.
\<close>

datatype mpu_fs =
    MPU_FS_250DPS | MPU_FS_500DPS | MPU_FS_1000DPS | MPU_FS_2000DPS | MPU_FS_OTHER nat

section \<open>The collaborators' calls\<close>

text \<open>
  Every call that leaves ml.c is recorded, in order, in the trace of the state. What a
  collaborator answers is a function of the calls made so far.
\<close>

datatype event =
    Set_mpu_memory dmp_key nat "u8 list"
  | Read_and_process_fifo int
  | Get_interrupt_trigger intsrc
  | Clear_interrupt_trigger intsrc
  | Interrupt_cb nat func_ptr
  | Get_fifo_status
  | Mpu_get_sampling_rate_hz
  | Mpu_config_accel slave_config_key bool slave_config_data
  | Init_fifo_hardare
  | Mode_change func_ptr u32 u32
  | Get_fifo_rate
  | Set_fifo_rate u16
  | Dl_start u32
  | Dl_stop u32
  | Get_tick_count
  | Set_motion_state motion

section \<open>The data of the library\<close>

record inv_obj_t =
  gyro_sens :: s32
  gyro_sf :: s32
  gyro_cal :: "s32 list"
  gyro_orient :: "s32 list"
  accel_sens :: s32
  accel_cal :: "s32 list"
  compass_sens :: s32
  compass_cal :: "s32 list"
  motion_state :: motion
  flags_MOTION_STATE_CHANGE :: motion
  no_motion_accel_time :: u32
  motion_duration :: u16
  mode_change_func :: func_ptr

record fix_pnt_range =
  mantissa :: s32
  fraction :: s32

record ext_slave_descr =
  slave_id :: u8
  slave_range :: fix_pnt_range

record ext_slave_platform_data =
  get_slave_descr :: func_ptr
  slave_orientation :: "s8 list"

record mpu_platform_data =
  mpu_orientation :: "s8 list"
  pdata_accel :: ext_slave_platform_data
  pdata_compass :: ext_slave_platform_data
  pdata_pressure :: ext_slave_platform_data

text \<open>
  \<open>accel\<close> and \<open>compass\<close> are pointers: \<open>None\<close> is the null pointer. The fields \<open>id\<close>,
  \<open>range\<close> and \<open>orientation\<close> of the slave records carry the prefix \<open>slave_\<close> here, and the
  field \<open>orientation\<close> of the platform data the prefix \<open>mpu_\<close>.
\<close>

record mldl_cfg =
  requested_sensors :: u32
  gyro_sens_trim :: u8
  full_scale :: mpu_fs
  accel :: "ext_slave_descr option"
  compass :: "ext_slave_descr option"
  pdata :: mpu_platform_data

record tMLXCallbackInterrupt =
  numInterruptProcesses :: s8
  processInterruptCb :: "func_ptr list"

text \<open>
  The state that the functions of ml.c share: the lifecycle state that \<open>inv_get_state\<close>
  reads, the global \<open>inv_obj\<close>, the configuration behind \<open>inv_get_dl_config\<close>, the callback
  registry and the trace of the calls made to collaborators.
\<close>

record ml_state =
  state :: inv_state
  inv_obj :: inv_obj_t
  dl_config :: mldl_cfg
  mlxCallbackInterrupt :: tMLXCallbackInterrupt
  trace :: "event list"

text \<open>
  What ml.c takes from elsewhere. Single-precision arithmetic is not interpreted: a float is
  a value of the type \<open>'f\<close>, and the operations used on floats are parameters, among them
  the conversion \<open>(long) x\<close>. The opcode bytes of dmpKey.h, the sensor masks of mpu.h and the
  macro \<open>RANGE_FIXEDPOINT_TO_FLOAT\<close> are parameters as well. The remaining fields are the
  collaborators: each answers from the calls made so far, and those that receive or own
  \<open>inv_obj\<close> may change it.
\<close>

record 'f env =
  f_of_int :: "int \<Rightarrow> 'f"
  f_mul :: "'f \<Rightarrow> 'f \<Rightarrow> 'f"
  f_div :: "'f \<Rightarrow> 'f \<Rightarrow> 'f"
  f_to_long :: "'f \<Rightarrow> s32"
  f_is_zero :: "'f \<Rightarrow> bool"
  RANGE_FIXEDPOINT_TO_FLOAT :: "fix_pnt_range \<Rightarrow> 'f"
  DINA0C :: u8
  DINA26 :: u8
  DINA2C :: u8
  DINA36 :: u8
  DINA46 :: u8
  DINA4C :: u8
  DINA56 :: u8
  DINA66 :: u8
  DINA6C :: u8
  DINA76 :: u8
  DINAC9 :: u8
  DINACB :: u8
  DINACD :: u8
  DINAD8 :: u8
  INV_DMP_PROCESSOR :: u32
  INV_THREE_AXIS_ACCEL :: u32
  INV_THREE_AXIS_COMPASS :: u32
  INV_THREE_AXIS_PRESSURE :: u32
  inv_dmpkey_supported :: "dmp_key \<Rightarrow> bool"
  set_mpu_memory_result :: "event list \<Rightarrow> dmp_key \<Rightarrow> nat \<Rightarrow> u8 list \<Rightarrow> inv_error_t"
  read_and_process_fifo_result :: "event list \<Rightarrow> int \<Rightarrow> inv_error_t"
  read_and_process_fifo_effect :: "event list \<Rightarrow> int \<Rightarrow> inv_obj_t \<Rightarrow> inv_obj_t"
  interrupt_trigger :: "event list \<Rightarrow> intsrc \<Rightarrow> u8"
  interrupt_cb_effect :: "event list \<Rightarrow> func_ptr \<Rightarrow> inv_obj_t \<Rightarrow> inv_obj_t"
  fifo_status :: "event list \<Rightarrow> inv_error_t"
  sampling_rate_hz :: "event list \<Rightarrow> s32"
  mpu_config_accel_result ::
    "event list \<Rightarrow> slave_config_key \<Rightarrow> bool \<Rightarrow> slave_config_data \<Rightarrow> inv_error_t"
  mode_change_result :: "event list \<Rightarrow> func_ptr \<Rightarrow> u32 \<Rightarrow> u32 \<Rightarrow> inv_error_t"
  fifo_rate :: "event list \<Rightarrow> u16"
  dl_start_result :: "event list \<Rightarrow> u32 \<Rightarrow> inv_error_t"
  dl_stop_result :: "event list \<Rightarrow> u32 \<Rightarrow> inv_error_t"
  tick_count :: "event list \<Rightarrow> u32"
  set_motion_state_effect :: "event list \<Rightarrow> motion \<Rightarrow> inv_obj_t \<Rightarrow> inv_obj_t"

definition inv_set_mpu_memory ::
  "'f env \<Rightarrow> dmp_key \<Rightarrow> nat \<Rightarrow> u8 list \<Rightarrow> ml_state \<Rightarrow> inv_error_t \<times> ml_state" where
  "inv_set_mpu_memory e key len buf s =
     (set_mpu_memory_result e (trace s) key len (take len buf),
      s\<lparr>trace := trace s @ [Set_mpu_memory key len (take len buf)]\<rparr>)"

text \<open>
  Modelled from the spec: \<open>inv_int32_to_big8\<close> of mlMathFunc.c, which is not among the
  sources. It stores its first argument as a big-endian 4-byte device word at the start of
  the buffer and returns the buffer.
\<close>

definition inv_int32_to_big8 :: "s32 \<Rightarrow> u8 list \<Rightarrow> u8 list" where
  "inv_int32_to_big8 x big8 =
     [ucast (drop_bit 24 x), ucast (drop_bit 16 x), ucast (drop_bit 8 x), ucast x] @ drop 4 big8"

section \<open>Orientation scalar of the accelerometer (ml.c, lines 111 to 148)\<close>

text \<open>
  \<open>inv_row_2_scale\<close> receives a pointer to a row of three signed chars. The pointer
  \<open>mtx + off\<close> of the caller is the pair of the matrix and the offset.
\<close>

definition inv_row_2_scale :: "s8 list \<Rightarrow> nat \<Rightarrow> u16" where
  "inv_row_2_scale mtx off =
     (if 0 < sint (mtx ! off) then 0
      else if sint (mtx ! off) < 0 then 4
      else if 0 < sint (mtx ! (off + 1)) then 1
      else if sint (mtx ! (off + 1)) < 0 then 5
      else if 0 < sint (mtx ! (off + 2)) then 2
      else if sint (mtx ! (off + 2)) < 0 then 6
      else 7)"

definition inv_orientation_matrix_to_scalar :: "s8 list \<Rightarrow> u16" where
  "inv_orientation_matrix_to_scalar mtx =
     (let scalar = inv_row_2_scale mtx 0;
          scalar = scalar OR push_bit 3 (inv_row_2_scale mtx 3);
          scalar = scalar OR push_bit 6 (inv_row_2_scale mtx 6)
      in scalar)"


section \<open>Gyroscope calibration (ml.c, lines 250 to 358)\<close>

text \<open>
  Modelled from the spec: the macro \<open>ABS\<close> of the header mlmath.h, which is not among the
  sources; the magnitude of its argument.
\<close>

definition ABS :: "s32 \<Rightarrow> int" where
  "ABS x = \<bar>sint x\<bar>"

text \<open>
  \<open>(long)((double)orientation[kk] * (1L << 30))\<close>: the product of a signed char and \<open>2^30\<close>
  is exact in double precision, and C defines its conversion to \<open>long\<close> only when the
  value fits. \<open>None\<close> is undefined behaviour, here and in every function below.
\<close>

definition double_to_long :: "int \<Rightarrow> s32 option" where
  "double_to_long v = (if - (2 ^ 31) \<le> v \<and> v < 2 ^ 31 then Some (word_of_int v) else None)"

text \<open>
  The body of the loop over the rows, lines 292 to 308: from the three entries of a row of
  \<open>gyro_orient\<close> to \<open>maxVal\<close> and \<open>tmpSign\<close>.
\<close>

definition gyro_row_dominance :: "s32 \<Rightarrow> s32 \<Rightarrow> s32 \<Rightarrow> u8 \<times> u8" where
  "gyro_row_dominance o0 o1 o2 =
     (let maxVal = 0;
          tmpSign = 0;
          tmpSign = (if sint o0 < 0 then 1 else tmpSign);
          (maxVal, tmpSign) =
            (if ABS o1 > ABS o0 then (1, if sint o1 < 0 then 1 else tmpSign)
             else (maxVal, tmpSign));
          (maxVal, tmpSign) =
            (if ABS o2 > ABS o1 then (2, if sint o2 < 0 then 1 else 0)
             else (maxVal, tmpSign))
      in (maxVal, tmpSign))"

text \<open>One turn of the loop, lines 291 to 322, on \<open>regs\<close> and \<open>tmpPtr\<close>.\<close>

definition gyro_fcfg_row :: "'f env \<Rightarrow> s32 list \<Rightarrow> nat \<Rightarrow> u8 list \<times> nat \<Rightarrow> u8 list \<times> nat" where
  "gyro_fcfg_row e orient i = (\<lambda>(regs, tmpPtr).
     (let (maxVal, tmpSign) =
            gyro_row_dominance (orient ! (0 + 3 * i)) (orient ! (1 + 3 * i)) (orient ! (2 + 3 * i));
          opc = (if maxVal = 0 then DINAC9 e else if maxVal = 1 then DINA2C e else DINACB e);
          regs = regs[tmpPtr := opc];
          tmpPtr = tmpPtr + 1;
          regs = (if tmpSign \<noteq> 0 then regs[tmpPtr + 2 := (regs ! (tmpPtr + 2)) OR 1] else regs)
      in (regs, tmpPtr)))"

definition gyro_fcfg_regs :: "'f env \<Rightarrow> s32 list \<Rightarrow> u8 list" where
  "gyro_fcfg_regs e orient =
     (let regs = replicate 12 0;
          regs = regs[3 := DINA36 e, 4 := DINA56 e, 5 := DINA76 e]
      in fst (fold (gyro_fcfg_row e orient) [0, 1, 2] (regs, 0)))"

text \<open>
  Division of two \<open>long long\<close> and of two \<open>long\<close> values: the quotient is truncated
  towards zero; C leaves a zero divisor and a quotient out of range undefined.
\<close>

definition ll_div :: "s64 \<Rightarrow> s64 \<Rightarrow> s64 option" where
  "ll_div a b =
     (if b = 0 then None
      else if sint a = - (2 ^ 63) \<and> sint b = - 1 then None
      else Some (word_of_int (sint a sdiv sint b)))"

definition long_div :: "s32 \<Rightarrow> s32 \<Rightarrow> s32 option" where
  "long_div a b =
     (if b = 0 then None
      else if sint a = - (2 ^ 31) \<and> sint b = - 1 then None
      else Some (word_of_int (sint a sdiv sint b)))"

text \<open>
  Line 336, the value stored in \<open>inv_obj.gyro_sf\<close>, and lines 345 to 349, the local \<open>sf\<close>.
  \<open>scast\<close> is the conversion of a \<open>long\<close> to \<open>long long\<close> and \<open>ucast\<close> the conversion of
  the quotient back to 32 bits, which keeps its low 32 bits.
\<close>

definition gyro_sf_of :: "s32 \<Rightarrow> s32 option" where
  "gyro_sf_of sens = map_option ucast (ll_div (scast sens * 767603923) 1073741824)"

definition gyro_sf_recip :: "s32 \<Rightarrow> s32 option" where
  "gyro_sf_recip sens =
     (if sens \<noteq> 0 then map_option ucast (ll_div 23832619764371 (scast sens)) else Some 0)"

definition inv_set_gyro_calibration ::
  "'f env \<Rightarrow> 'f \<Rightarrow> s8 list \<Rightarrow> ml_state \<Rightarrow> (inv_error_t \<times> ml_state) option" where
  "inv_set_gyro_calibration e range0 orientation s =
     (if state s \<noteq> INV_STATE_DMP_OPENED then Some (INV_ERROR_SM_IMPROPER_STATE, s)
      else
        let trim = gyro_sens_trim (dl_config s);
            rng = (if trim \<noteq> 0
                   then f_mul e range0
                          (f_div e (f_div e (f_of_int e 32768) (f_of_int e 250))
                             (f_of_int e (uint trim)))
                   else range0);
            scale = f_div e rng (f_of_int e 32768);
            sens = f_to_long e (f_mul e rng (f_of_int e 32768));
            cal = map (\<lambda>kk. f_to_long e
                    (f_mul e (f_mul e scale (f_of_int e (sint (orientation ! kk))))
                       (f_of_int e (2 ^ 30)))) [0..<9]
        in case those (map (\<lambda>kk. double_to_long (sint (orientation ! kk) * 2 ^ 30)) [0..<9]) of
             None \<Rightarrow> None
           | Some orient \<Rightarrow>
               let s = s\<lparr>inv_obj := (inv_obj s)
                          \<lparr>gyro_sens := sens, gyro_cal := cal, gyro_orient := orient\<rparr>\<rparr>;
                   regs = gyro_fcfg_regs e orient;
                   (result, s) = inv_set_mpu_memory e KEY_FCFG_1 3 regs s
               in if result \<noteq> INV_SUCCESS then Some (result, s)
                  else
                    let (result, s) = inv_set_mpu_memory e KEY_FCFG_3 3 (drop 3 regs) s
                    in if result \<noteq> INV_SUCCESS then Some (result, s)
                       else
                         (case gyro_sf_of (gyro_sens (inv_obj s)) of
                            None \<Rightarrow> None
                          | Some gsf \<Rightarrow>
                              let s = s\<lparr>inv_obj := (inv_obj s)\<lparr>gyro_sf := gsf\<rparr>\<rparr>;
                                  regs = inv_int32_to_big8 gsf regs;
                                  (result, s) = inv_set_mpu_memory e KEY_D_0_104 4 regs s
                              in if result \<noteq> INV_SUCCESS then Some (result, s)
                                 else
                                   (case gyro_sf_recip (gyro_sens (inv_obj s)) of
                                      None \<Rightarrow> None
                                    | Some sf \<Rightarrow>
                                        let regs = inv_int32_to_big8 sf regs;
                                            (result, s) =
                                              inv_set_mpu_memory e KEY_D_0_24 4 regs s
                                        in if result \<noteq> INV_SUCCESS then Some (result, s)
                                           else Some (INV_SUCCESS, s))))"

section \<open>Accelerometer calibration (ml.c, lines 391 to 469)\<close>

text \<open>Reading \<open>xs[i]\<close>: C leaves a read past the end of the array undefined.\<close>

definition array_read :: "'a list \<Rightarrow> nat \<Rightarrow> 'a option" where
  "array_read xs i = (if i < length xs then Some (xs ! i) else None)"

text \<open>Lines 455 to 459, the local \<open>sf\<close>, an \<open>unsigned long\<close>.\<close>

definition accel_sf_of :: "s32 \<Rightarrow> u32 option" where
  "accel_sf_of sens = (if sens \<noteq> 0 then long_div 1073741824 sens else Some 0)"

text \<open>The block of lines 417 to 453, entered when \<open>mldl_cfg->accel->id\<close> is not zero.\<close>

definition accel_fcfg ::
  "'f env \<Rightarrow> 'f \<Rightarrow> s8 list \<Rightarrow> ml_state \<Rightarrow> (inv_error_t \<times> ml_state) option" where
  "accel_fcfg e scale orientation s =
     (let tmp = [DINA4C e, DINACD e, DINA6C e];
          cal = map (\<lambda>kk. f_mul e scale (f_of_int e (sint (orientation ! kk)))) [0..<9];
          s = s\<lparr>inv_obj := (inv_obj s)
                 \<lparr>accel_cal := map (\<lambda>c. f_to_long e (f_mul e c (f_of_int e (2 ^ 30)))) cal\<rparr>\<rparr>;
          orient = inv_orientation_matrix_to_scalar orientation
      in case array_read tmp (unat (orient AND 3)) of
           None \<Rightarrow> None
         | Some r0 \<Rightarrow>
        (case array_read tmp (unat (drop_bit 3 orient AND 3)) of
           None \<Rightarrow> None
         | Some r1 \<Rightarrow>
        (case array_read tmp (unat (drop_bit 6 orient AND 3)) of
           None \<Rightarrow> None
         | Some r2 \<Rightarrow>
             let (result, s) = inv_set_mpu_memory e KEY_FCFG_2 3 [r0, r1, r2] s
             in if result \<noteq> INV_SUCCESS then Some (result, s)
                else
                  let regs = [DINA26 e, DINA46 e, DINA66 e];
                      regs = (if orient AND 4 \<noteq> 0 then regs[0 := (regs ! 0) OR 1] else regs);
                      regs = (if orient AND 0x20 \<noteq> 0 then regs[1 := (regs ! 1) OR 1] else regs);
                      regs = (if orient AND 0x100 \<noteq> 0 then regs[2 := (regs ! 2) OR 1] else regs);
                      (result, s) = inv_set_mpu_memory e KEY_FCFG_7 3 regs s
                  in Some (result, s))))"

text \<open>Lines 413 to 468: what follows the reset of \<open>KEY_D_1_152\<close>.\<close>

definition accel_scale_factor ::
  "'f env \<Rightarrow> 'f \<Rightarrow> s8 list \<Rightarrow> ml_state \<Rightarrow> (inv_error_t \<times> ml_state) option" where
  "accel_scale_factor e scale orientation s =
     (let s = (if f_is_zero e scale then s\<lparr>inv_obj := (inv_obj s)\<lparr>accel_sens := 0\<rparr>\<rparr> else s)
      in case accel (dl_config s) of
           None \<Rightarrow> None
         | Some acc \<Rightarrow>
             (case (if slave_id acc \<noteq> 0 then accel_fcfg e scale orientation s
                    else Some (INV_SUCCESS, s)) of
                None \<Rightarrow> None
              | Some (result, s) \<Rightarrow>
                  if result \<noteq> INV_SUCCESS then Some (result, s)
                  else
                    (case accel_sf_of (accel_sens (inv_obj s)) of
                       None \<Rightarrow> None
                     | Some sf \<Rightarrow>
                         let regs = [0, 0, 0, 0];
                             regs = regs[0 := ucast (drop_bit 8 sf AND 0xff)];
                             regs = regs[1 := ucast (sf AND 0xff)];
                             (result, s) = inv_set_mpu_memory e KEY_D_0_108 2 regs s
                         in Some (result, s))))"

definition inv_set_accel_calibration ::
  "'f env \<Rightarrow> 'f \<Rightarrow> s8 list \<Rightarrow> ml_state \<Rightarrow> (inv_error_t \<times> ml_state) option" where
  "inv_set_accel_calibration e rng orientation s =
     (let scale = f_div e rng (f_of_int e 32768);
          regs = [0, 0, 0, 0]
      in if state s \<noteq> INV_STATE_DMP_OPENED then Some (INV_ERROR_SM_IMPROPER_STATE, s)
         else if inv_dmpkey_supported e KEY_D_1_152
         then
           let (result, s) = inv_set_mpu_memory e KEY_D_1_152 4 regs s
           in if result \<noteq> INV_SUCCESS then Some (result, s)
              else accel_scale_factor e scale orientation s
         else accel_scale_factor e scale orientation s)"

section \<open>Compass calibration (ml.c, lines 502 to 541)\<close>

text \<open>One turn of the loop of lines 528 to 537; the result of the write is dropped.\<close>

definition compass_mtx_cell :: "'f env \<Rightarrow> s8 list \<Rightarrow> nat \<Rightarrow> ml_state \<Rightarrow> ml_state" where
  "compass_mtx_cell e orientation kk s =
     (let reg0 = [0, 0, 0, 0];
          regp = [64, 0, 0, 0];
          regn = [64 + 128, 0, 0, 0];
          keyList = [KEY_CPASS_MTX_00, KEY_CPASS_MTX_01, KEY_CPASS_MTX_02,
                     KEY_CPASS_MTX_10, KEY_CPASS_MTX_11, KEY_CPASS_MTX_12,
                     KEY_CPASS_MTX_20, KEY_CPASS_MTX_21, KEY_CPASS_MTX_22];
          reg = (if sint (orientation ! kk) = 1 then regp
                 else if sint (orientation ! kk) = - 1 then regn
                 else reg0)
      in snd (inv_set_mpu_memory e (keyList ! kk) 4 reg s))"

definition inv_set_compass_calibration ::
  "'f env \<Rightarrow> 'f \<Rightarrow> s8 list \<Rightarrow> ml_state \<Rightarrow> inv_error_t \<times> ml_state" where
  "inv_set_compass_calibration e rng orientation s =
     (let scale = f_div e rng (f_of_int e 32768);
          cal = map (\<lambda>kk. f_mul e scale (f_of_int e (sint (orientation ! kk)))) [0..<9];
          s = s\<lparr>inv_obj := (inv_obj s)
                 \<lparr>compass_cal := map (\<lambda>c. f_to_long e (f_mul e c (f_of_int e (2 ^ 30)))) cal\<rparr>\<rparr>;
          s = s\<lparr>inv_obj := (inv_obj s)
                 \<lparr>compass_sens := f_to_long e (f_mul e scale (f_of_int e 1073741824))\<rparr>\<rparr>;
          s = (if inv_dmpkey_supported e KEY_CPASS_MTX_00
               then fold (compass_mtx_cell e orientation) [0..<9] s
               else s)
      in (INV_SUCCESS, s))"

section \<open>Applying the calibration (ml.c, lines 548 to 625)\<close>

definition gyroScale_of :: "'f env \<Rightarrow> mpu_fs \<Rightarrow> 'f option" where
  "gyroScale_of e fs =
     (case fs of
        MPU_FS_250DPS \<Rightarrow> Some (f_of_int e 250)
      | MPU_FS_500DPS \<Rightarrow> Some (f_of_int e 500)
      | MPU_FS_1000DPS \<Rightarrow> Some (f_of_int e 1000)
      | MPU_FS_2000DPS \<Rightarrow> Some (f_of_int e 2000)
      | MPU_FS_OTHER n \<Rightarrow> None)"

definition inv_apply_calibration :: "'f env \<Rightarrow> ml_state \<Rightarrow> (inv_error_t \<times> ml_state) option" where
  "inv_apply_calibration e s =
     (let mldl = dl_config s;
          gyroCal = map (\<lambda>ii. mpu_orientation (pdata mldl) ! ii) [0..<9];
          accelCal = (if accel mldl \<noteq> None
                      then map (\<lambda>ii. slave_orientation (pdata_accel (pdata mldl)) ! ii) [0..<9]
                      else replicate 9 0);
          magCal = (if compass mldl \<noteq> None
                    then map (\<lambda>ii. slave_orientation (pdata_compass (pdata mldl)) ! ii) [0..<9]
                    else replicate 9 0)
      in case gyroScale_of e (full_scale mldl) of
           None \<Rightarrow> Some (INV_ERROR_INVALID_PARAMETER, s)
         | Some gyroScale \<Rightarrow>
             let accelScale = (case accel mldl of
                                 None \<Rightarrow> f_of_int e 0
                               | Some a \<Rightarrow> RANGE_FIXEDPOINT_TO_FLOAT e (slave_range a));
                 s = (if accel mldl \<noteq> None
                      then s\<lparr>inv_obj := (inv_obj s)
                             \<lparr>accel_sens := word_of_int
                                (sint (f_to_long e (f_mul e accelScale (f_of_int e 65536))) sdiv 2)\<rparr>\<rparr>
                      else s);
                 magScale = (case compass mldl of
                               None \<Rightarrow> f_of_int e 0
                             | Some c \<Rightarrow> RANGE_FIXEDPOINT_TO_FLOAT e (slave_range c));
                 s = (if compass mldl \<noteq> None
                      then s\<lparr>inv_obj := (inv_obj s)
                             \<lparr>compass_sens := f_to_long e (f_mul e magScale (f_of_int e 32768))\<rparr>\<rparr>
                      else s)
             in if state s = INV_STATE_DMP_OPENED
                then
                  (case inv_set_gyro_calibration e gyroScale gyroCal s of
                     None \<Rightarrow> None
                   | Some (result, s) \<Rightarrow>
                       if result \<noteq> INV_SUCCESS then Some (result, s)
                       else
                         (case (if accel mldl \<noteq> None
                                then inv_set_accel_calibration e accelScale accelCal s
                                else Some (INV_SUCCESS, s)) of
                            None \<Rightarrow> None
                          | Some (result, s) \<Rightarrow>
                              if result \<noteq> INV_SUCCESS then Some (result, s)
                              else if compass mldl \<noteq> None
                              then
                                let (result, s) = inv_set_compass_calibration e magScale magCal s
                                in if result \<noteq> INV_SUCCESS then Some (result, s)
                                   else Some (INV_SUCCESS, s)
                              else Some (INV_SUCCESS, s)))
                else Some (INV_SUCCESS, s))"


section \<open>The collaborators of the data pump and of the sensor controller\<close>

definition inv_read_and_process_fifo ::
  "'f env \<Rightarrow> int \<Rightarrow> ml_state \<Rightarrow> inv_error_t \<times> ml_state" where
  "inv_read_and_process_fifo e ftry s =
     (read_and_process_fifo_result e (trace s) ftry,
      s\<lparr>inv_obj := read_and_process_fifo_effect e (trace s) ftry (inv_obj s),
        trace := trace s @ [Read_and_process_fifo ftry]\<rparr>)"

definition inv_get_interrupt_trigger :: "'f env \<Rightarrow> intsrc \<Rightarrow> ml_state \<Rightarrow> u8 \<times> ml_state" where
  "inv_get_interrupt_trigger e src s =
     (interrupt_trigger e (trace s) src, s\<lparr>trace := trace s @ [Get_interrupt_trigger src]\<rparr>)"

definition inv_clear_interrupt_trigger :: "'f env \<Rightarrow> intsrc \<Rightarrow> ml_state \<Rightarrow> ml_state" where
  "inv_clear_interrupt_trigger e src s = s\<lparr>trace := trace s @ [Clear_interrupt_trigger src]\<rparr>"

definition inv_get_fifo_status :: "'f env \<Rightarrow> ml_state \<Rightarrow> inv_error_t \<times> ml_state" where
  "inv_get_fifo_status e s = (fifo_status e (trace s), s\<lparr>trace := trace s @ [Get_fifo_status]\<rparr>)"

definition inv_mpu_get_sampling_rate_hz :: "'f env \<Rightarrow> ml_state \<Rightarrow> s32 \<times> ml_state" where
  "inv_mpu_get_sampling_rate_hz e s =
     (sampling_rate_hz e (trace s), s\<lparr>trace := trace s @ [Mpu_get_sampling_rate_hz]\<rparr>)"

definition inv_mpu_config_accel ::
  "'f env \<Rightarrow> slave_config_key \<Rightarrow> bool \<Rightarrow> slave_config_data \<Rightarrow> ml_state
     \<Rightarrow> inv_error_t \<times> ml_state" where
  "inv_mpu_config_accel e key apply data s =
     (mpu_config_accel_result e (trace s) key apply data,
      s\<lparr>trace := trace s @ [Mpu_config_accel key apply data]\<rparr>)"

definition inv_init_fifo_hardare :: "'f env \<Rightarrow> ml_state \<Rightarrow> ml_state" where
  "inv_init_fifo_hardare e s = s\<lparr>trace := trace s @ [Init_fifo_hardare]\<rparr>"

definition call_mode_change_func ::
  "'f env \<Rightarrow> func_ptr \<Rightarrow> u32 \<Rightarrow> u32 \<Rightarrow> ml_state \<Rightarrow> inv_error_t \<times> ml_state" where
  "call_mode_change_func e f old new s =
     (mode_change_result e (trace s) f old new, s\<lparr>trace := trace s @ [Mode_change f old new]\<rparr>)"

definition inv_get_fifo_rate :: "'f env \<Rightarrow> ml_state \<Rightarrow> u16 \<times> ml_state" where
  "inv_get_fifo_rate e s = (fifo_rate e (trace s), s\<lparr>trace := trace s @ [Get_fifo_rate]\<rparr>)"

definition inv_set_fifo_rate :: "'f env \<Rightarrow> u16 \<Rightarrow> ml_state \<Rightarrow> ml_state" where
  "inv_set_fifo_rate e r s = s\<lparr>trace := trace s @ [Set_fifo_rate r]\<rparr>"

definition inv_dl_start :: "'f env \<Rightarrow> u32 \<Rightarrow> ml_state \<Rightarrow> inv_error_t \<times> ml_state" where
  "inv_dl_start e sensors s =
     (dl_start_result e (trace s) sensors, s\<lparr>trace := trace s @ [Dl_start sensors]\<rparr>)"

definition inv_dl_stop :: "'f env \<Rightarrow> u32 \<Rightarrow> ml_state \<Rightarrow> inv_error_t \<times> ml_state" where
  "inv_dl_stop e sensors s =
     (dl_stop_result e (trace s) sensors, s\<lparr>trace := trace s @ [Dl_stop sensors]\<rparr>)"

definition inv_get_tick_count :: "'f env \<Rightarrow> ml_state \<Rightarrow> u32 \<times> ml_state" where
  "inv_get_tick_count e s = (tick_count e (trace s), s\<lparr>trace := trace s @ [Get_tick_count]\<rparr>)"

definition inv_set_motion_state :: "'f env \<Rightarrow> motion \<Rightarrow> ml_state \<Rightarrow> ml_state" where
  "inv_set_motion_state e m s =
     s\<lparr>inv_obj := set_motion_state_effect e (trace s) m (inv_obj s),
       trace := trace s @ [Set_motion_state m]\<rparr>"

section \<open>The data pump (ml.c, lines 739 to 746 and 811 to 853)\<close>

text \<open>
  The loop of \<open>inv_run_dmp_interupt_cb\<close>, from the index \<open>kk\<close> on. A callback receives the
  address of \<open>inv_obj\<close>; a null entry is skipped. A callback is taken to change nothing but
  the \<open>inv_obj\<close> it receives: it does not register or remove callbacks and does not call
  back into \<open>inv_update_data\<close>, which the design leaves unsupported.
\<close>

function inv_run_dmp_interupt_cb_from :: "'f env \<Rightarrow> nat \<Rightarrow> ml_state \<Rightarrow> ml_state option" where
  "inv_run_dmp_interupt_cb_from e kk s =
     (if int kk < sint (numInterruptProcesses (mlxCallbackInterrupt s))
      then
        (case array_read (processInterruptCb (mlxCallbackInterrupt s)) kk of
           None \<Rightarrow> None
         | Some cb \<Rightarrow>
             inv_run_dmp_interupt_cb_from e (kk + 1)
               (if cb \<noteq> 0
                then s\<lparr>inv_obj := interrupt_cb_effect e (trace s) cb (inv_obj s),
                       trace := trace s @ [Interrupt_cb kk cb]\<rparr>
                else s))
      else Some s)"
  by pat_completeness auto
termination
  by (relation "measure (\<lambda>(e, kk, s).
        nat (sint (numInterruptProcesses (mlxCallbackInterrupt s))) - kk)") auto

definition inv_run_dmp_interupt_cb :: "'f env \<Rightarrow> ml_state \<Rightarrow> ml_state option" where
  "inv_run_dmp_interupt_cb e s = inv_run_dmp_interupt_cb_from e 0 s"

text \<open>Lines 837 to 840 of \<open>inv_update_data\<close>: the auxiliary interrupt source.\<close>

definition update_aux1_interrupt :: "'f env \<Rightarrow> ml_state \<Rightarrow> ml_state" where
  "update_aux1_interrupt e s =
     (let (mpu_interrupt, s) = inv_get_interrupt_trigger e INTSRC_AUX1 s
      in if mpu_interrupt \<noteq> 0 then inv_clear_interrupt_trigger e INTSRC_AUX1 s else s)"

text \<open>The number of packets that \<open>inv_update_data\<close> asks for, lines 823 to 827.\<close>

definition update_ftry :: "'f env \<Rightarrow> ml_state \<Rightarrow> int" where
  "update_ftry e s =
     (if requested_sensors (dl_config s) AND INV_DMP_PROCESSOR e \<noteq> 0 then 100 else 1)"

definition inv_update_data :: "'f env \<Rightarrow> ml_state \<Rightarrow> (inv_error_t \<times> ml_state) option" where
  "inv_update_data e s =
     (if state s \<noteq> INV_STATE_DMP_STARTED then Some (INV_ERROR_SM_IMPROPER_STATE, s)
      else
        let ftry = update_ftry e s;
            (result, s) = inv_read_and_process_fifo e ftry s
        in if result \<noteq> INV_SUCCESS then Some (result, s)
           else
             let s = update_aux1_interrupt e s;
                 (mpu_interrupt, s) = inv_get_interrupt_trigger e INTSRC_MPU s;
                 s = (if mpu_interrupt \<noteq> 0 then inv_clear_interrupt_trigger e INTSRC_MPU s
                      else s)
             in case (if mpu_interrupt \<noteq> 0 then inv_run_dmp_interupt_cb e s else Some s) of
                  None \<Rightarrow> None
                | Some s \<Rightarrow> Some (inv_get_fifo_status e s))"

section \<open>Resetting the motion state (ml.c, lines 751 to 792)\<close>

text \<open>
  \<open>regs\<close> is not initialised in the source; every byte that is written to the device has
  been set before.
\<close>

definition inv_reset_motion :: "'f env \<Rightarrow> ml_state \<Rightarrow> inv_error_t \<times> ml_state" where
  "inv_reset_motion e s =
     (let regs = replicate 8 0;
          s = s\<lparr>inv_obj := (inv_obj s)\<lparr>motion_state := INV_MOTION\<rparr>\<rparr>;
          s = s\<lparr>inv_obj := (inv_obj s)\<lparr>flags_MOTION_STATE_CHANGE := INV_MOTION\<rparr>\<rparr>;
          (tick, s) = inv_get_tick_count e s;
          s = s\<lparr>inv_obj := (inv_obj s)\<lparr>no_motion_accel_time := tick\<rparr>\<rparr>;
          regs = regs[0 := DINAD8 e + 2, 1 := DINA0C e, 2 := DINAD8 e + 1];
          (result, s) = inv_set_mpu_memory e KEY_CFG_18 3 regs s
      in if result \<noteq> INV_SUCCESS then (result, s)
         else
           let regs = regs[0 := ucast (drop_bit 8 (motion_duration (inv_obj s)) AND 0xff),
                           1 := ucast (motion_duration (inv_obj s) AND 0xff)];
               (result, s) = inv_set_mpu_memory e KEY_D_1_106 2 regs s
           in if result \<noteq> INV_SUCCESS then (result, s)
              else
                let regs = replicate 8 0;
                    (result, s) = inv_set_mpu_memory e KEY_D_1_96 8 regs s
                in if result \<noteq> INV_SUCCESS then (result, s)
                   else
                     let (result, s) =
                           inv_set_mpu_memory e KEY_D_0_96 4 (inv_int32_to_big8 0x40000000 regs) s
                     in if result \<noteq> INV_SUCCESS then (result, s)
                        else (result, inv_set_motion_state e INV_MOTION s))"

section \<open>The sensor controller (ml.c, lines 1148 to 1269)\<close>

text \<open>Lines 1225 to 1268: the new mask is stored and applied.\<close>

definition set_mpu_sensors_apply ::
  "'f env \<Rightarrow> u32 \<Rightarrow> inv_state \<Rightarrow> inv_error_t \<Rightarrow> ml_state \<Rightarrow> inv_error_t \<times> ml_state" where
  "set_mpu_sensors_apply e sensors st result0 s =
     (let (fifoRate, s) = inv_get_fifo_rate e s;
          s = s\<lparr>dl_config := (dl_config s)\<lparr>requested_sensors := sensors\<rparr>\<rparr>;
          (result, s) =
            (if st = INV_STATE_DMP_STARTED
             then
               let (result, s) = inv_dl_start e sensors s
               in if result \<noteq> INV_SUCCESS then (result, s)
                  else
                    let (result, s) = inv_reset_motion e s
                    in if result \<noteq> INV_SUCCESS then (result, s)
                       else inv_dl_stop e (NOT sensors) s
             else (result0, s))
      in if st = INV_STATE_DMP_STARTED \<and> result \<noteq> INV_SUCCESS then (result, s)
         else
           let s = inv_set_fifo_rate e fifoRate s
           in if sensors AND INV_DMP_PROCESSOR e = 0 \<and> sensors AND INV_THREE_AXIS_ACCEL e \<noteq> 0
              then inv_mpu_config_accel e MPU_SLAVE_CONFIG_IRQ_RESUME
                     (st = INV_STATE_DMP_STARTED) MPU_SLAVE_IRQ_TYPE_DATA_READY s
              else (result, s))"

text \<open>Lines 1217 to 1223: the mode-change callback, when one is registered.\<close>

definition set_mpu_sensors_mode_change ::
  "'f env \<Rightarrow> u32 \<Rightarrow> inv_state \<Rightarrow> ml_state \<Rightarrow> inv_error_t \<times> ml_state" where
  "set_mpu_sensors_mode_change e sensors st s =
     (if mode_change_func (inv_obj s) \<noteq> 0
      then
        let (result, s) =
              call_mode_change_func e (mode_change_func (inv_obj s))
                (requested_sensors (dl_config s)) sensors s
        in if result \<noteq> INV_SUCCESS then (result, s)
           else set_mpu_sensors_apply e sensors st result s
      else set_mpu_sensors_apply e sensors st INV_SUCCESS s)"

text \<open>Lines 1186 to 1215: the DMP was off and is turning on.\<close>

definition set_mpu_sensors_dmp_on ::
  "'f env \<Rightarrow> u32 \<Rightarrow> inv_state \<Rightarrow> ml_state \<Rightarrow> inv_error_t \<times> ml_state" where
  "set_mpu_sensors_dmp_on e sensors st s =
     (if sensors AND INV_DMP_PROCESSOR e \<noteq> 0
         \<and> requested_sensors (dl_config s) AND INV_DMP_PROCESSOR e = 0
      then
        let apply = (st = INV_STATE_DMP_STARTED);
            (hz, s) = inv_mpu_get_sampling_rate_hz e s;
            odr = hz * 1000;
            (result, s) = inv_mpu_config_accel e MPU_SLAVE_CONFIG_ODR_RESUME apply (Odr odr) s
        in if result \<noteq> INV_SUCCESS then (result, s)
           else
             let (result, s) =
                   inv_mpu_config_accel e MPU_SLAVE_CONFIG_IRQ_RESUME apply
                     MPU_SLAVE_IRQ_TYPE_NONE s
             in if result \<noteq> INV_SUCCESS then (result, s)
                else set_mpu_sensors_mode_change e sensors st (inv_init_fifo_hardare e s)
      else set_mpu_sensors_mode_change e sensors st s)"

definition inv_set_mpu_sensors :: "'f env \<Rightarrow> u32 \<Rightarrow> ml_state \<Rightarrow> inv_error_t \<times> ml_state" where
  "inv_set_mpu_sensors e sensors s =
     (let st = state s;
          mldl = dl_config s
      in if state_ord st < state_ord INV_STATE_DMP_OPENED then (INV_ERROR_SM_IMPROPER_STATE, s)
         else if sensors AND INV_THREE_AXIS_ACCEL e \<noteq> INV_THREE_AXIS_ACCEL e
                 \<and> sensors AND INV_THREE_AXIS_ACCEL e \<noteq> 0
         then (INV_ERROR_FEATURE_NOT_IMPLEMENTED, s)
         else if sensors AND INV_THREE_AXIS_ACCEL e \<noteq> 0
                 \<and> get_slave_descr (pdata_accel (pdata mldl)) = 0
         then (INV_ERROR_SERIAL_DEVICE_NOT_RECOGNIZED, s)
         else if sensors AND INV_THREE_AXIS_COMPASS e \<noteq> INV_THREE_AXIS_COMPASS e
                 \<and> sensors AND INV_THREE_AXIS_COMPASS e \<noteq> 0
         then (INV_ERROR_FEATURE_NOT_IMPLEMENTED, s)
         else if sensors AND INV_THREE_AXIS_COMPASS e \<noteq> 0
                 \<and> get_slave_descr (pdata_compass (pdata mldl)) = 0
         then (INV_ERROR_SERIAL_DEVICE_NOT_RECOGNIZED, s)
         else if sensors AND INV_THREE_AXIS_PRESSURE e \<noteq> INV_THREE_AXIS_PRESSURE e
                 \<and> sensors AND INV_THREE_AXIS_PRESSURE e \<noteq> 0
         then (INV_ERROR_FEATURE_NOT_IMPLEMENTED, s)
         else if sensors AND INV_THREE_AXIS_PRESSURE e \<noteq> 0
                 \<and> get_slave_descr (pdata_pressure (pdata mldl)) = 0
         then (INV_ERROR_SERIAL_DEVICE_NOT_RECOGNIZED, s)
         else set_mpu_sensors_dmp_on e sensors st s)"


section \<open>The specification's reading of the axis dominance\<close>

text \<open>
  The specification's words for the row encoding of the gyroscope: the entry of largest
  magnitude is selected, only a strictly larger magnitude replaces the entry selected so
  far, and the sign flag is set when the selected entry is negative. This definition follows
  the specification, not the source; it is compared with \<open>gyro_row_dominance\<close> below.
\<close>

definition dominant_axis_spec :: "s32 \<Rightarrow> s32 \<Rightarrow> s32 \<Rightarrow> u8 \<times> u8" where
  "dominant_axis_spec o0 o1 o2 =
     (let (best, axis) = (o0, 0);
          (best, axis) = (if ABS o1 > ABS best then (o1, 1) else (best, axis));
          (best, axis) = (if ABS o2 > ABS best then (o2, 2) else (best, axis))
      in (axis, if sint best < 0 then 1 else 0))"

text \<open>The calls of interrupt callbacks among the events of a trace.\<close>

fun is_Interrupt_cb :: "event \<Rightarrow> bool" where
  "is_Interrupt_cb (Interrupt_cb kk cb) = True"
| "is_Interrupt_cb ev = False"

text \<open>
  The context after the callbacks of a list of registry entries, each given with its
  index, have been called one after the other: the first callback receives the context
  \<open>obj\<close>, every later one the context that the one before it has left, and \<open>tr\<close> is the
  trace at the first call.
\<close>

fun callbacks_context ::
  "'f env \<Rightarrow> event list \<Rightarrow> (nat \<times> func_ptr) list \<Rightarrow> inv_obj_t \<Rightarrow> inv_obj_t" where
  "callbacks_context e tr [] obj = obj"
| "callbacks_context e tr ((kk, cb) # rest) obj =
     callbacks_context e (tr @ [Interrupt_cb kk cb]) rest (interrupt_cb_effect e tr cb obj)"

section \<open>An example platform and example states\<close>

text \<open>
  A platform on which floats are real numbers and \<open>(long) x\<close> truncates towards zero, the
  opcode bytes are the hexadecimal numbers in their names, every device key is supported,
  every collaborator succeeds, the primary interrupt source has always fired and a callback
  increments \<open>no_motion_accel_time\<close>. The example states differ in the lifecycle state only:
  an accelerometer is configured, a compass is not, and two callbacks are registered in a
  registry of capacity five.
\<close>

definition example_env :: "real env" where
  "example_env =
     \<lparr>f_of_int = of_int,
      f_mul = (*),
      f_div = (/),
      f_to_long = (\<lambda>x. word_of_int (if 0 \<le> x then \<lfloor>x\<rfloor> else \<lceil>x\<rceil>)),
      f_is_zero = (\<lambda>x. x = 0),
      RANGE_FIXEDPOINT_TO_FLOAT =
        (\<lambda>r. of_int (sint (mantissa r)) + of_int (sint (fraction r)) / 1000),
      DINA0C = 0x0c, DINA26 = 0x26, DINA2C = 0x2c, DINA36 = 0x36, DINA46 = 0x46,
      DINA4C = 0x4c, DINA56 = 0x56, DINA66 = 0x66, DINA6C = 0x6c, DINA76 = 0x76,
      DINAC9 = 0xc9, DINACB = 0xcb, DINACD = 0xcd, DINAD8 = 0xd8,
      INV_DMP_PROCESSOR = 0x0008,
      INV_THREE_AXIS_ACCEL = 0x0070,
      INV_THREE_AXIS_COMPASS = 0x0380,
      INV_THREE_AXIS_PRESSURE = 0x1C00,
      inv_dmpkey_supported = (\<lambda>key. True),
      set_mpu_memory_result = (\<lambda>tr key len buf. INV_SUCCESS),
      read_and_process_fifo_result = (\<lambda>tr ftry. INV_SUCCESS),
      read_and_process_fifo_effect = (\<lambda>tr ftry obj. obj),
      interrupt_trigger = (\<lambda>tr src. if src = INTSRC_MPU then 1 else 0),
      interrupt_cb_effect = (\<lambda>tr f obj. obj\<lparr>no_motion_accel_time := no_motion_accel_time obj + 1\<rparr>),
      fifo_status = (\<lambda>tr. INV_SUCCESS),
      sampling_rate_hz = (\<lambda>tr. 200),
      mpu_config_accel_result = (\<lambda>tr key apply data. INV_SUCCESS),
      mode_change_result = (\<lambda>tr f old new. INV_SUCCESS),
      fifo_rate = (\<lambda>tr. 5),
      dl_start_result = (\<lambda>tr sensors. INV_SUCCESS),
      dl_stop_result = (\<lambda>tr sensors. INV_SUCCESS),
      tick_count = (\<lambda>tr. 0),
      set_motion_state_effect = (\<lambda>tr m obj. obj)\<rparr>"

definition example_obj :: inv_obj_t where
  "example_obj =
     \<lparr>gyro_sens = 0, gyro_sf = 0, gyro_cal = replicate 9 0, gyro_orient = replicate 9 0,
      accel_sens = 65536, accel_cal = replicate 9 0,
      compass_sens = 322122560, compass_cal = replicate 9 0,
      motion_state = INV_MOTION, flags_MOTION_STATE_CHANGE = INV_MOTION,
      no_motion_accel_time = 0, motion_duration = 1536, mode_change_func = 0\<rparr>"

definition example_cfg :: mldl_cfg where
  "example_cfg =
     \<lparr>requested_sensors = 0,
      gyro_sens_trim = 0,
      full_scale = MPU_FS_2000DPS,
      accel = Some \<lparr>slave_id = 1, slave_range = \<lparr>mantissa = 2, fraction = 0\<rparr>\<rparr>,
      compass = None,
      pdata = \<lparr>mpu_orientation = [1, 0, 0, 0, 1, 0, 0, 0, 1],
               pdata_accel = \<lparr>get_slave_descr = 1,
                               slave_orientation = [1, 0, 0, 0, 1, 0, 0, 0, 1]\<rparr>,
               pdata_compass = \<lparr>get_slave_descr = 0, slave_orientation = replicate 9 0\<rparr>,
               pdata_pressure = \<lparr>get_slave_descr = 0, slave_orientation = replicate 9 0\<rparr>\<rparr>\<rparr>"

definition example_state :: "inv_state \<Rightarrow> ml_state" where
  "example_state st =
     \<lparr>state = st, inv_obj = example_obj, dl_config = example_cfg,
      mlxCallbackInterrupt = \<lparr>numInterruptProcesses = 2, processInterruptCb = [7, 9, 0, 0, 0]\<rparr>,
      trace = []\<rparr>"
section \<open>Auxiliary facts\<close>

subsection \<open>Arithmetic of the scale factors\<close>

lemma sint_long_range: "- (2 ^ 31) \<le> sint (x :: s32) \<and> sint x < 2 ^ 31"
  using sint_ge [of x] sint_lt [of x] by simp

lemma sint_scast_long: "sint (scast (x :: s32) :: s64) = sint x"
  by (rule sint_up_scast) (simp add: is_up)

lemma scast_long_eq_0: "(scast (x :: s32) :: s64) = 0 \<longleftrightarrow> x = 0"
proof
  assume "(scast x :: s64) = 0"
  then have "sint (scast x :: s64) = 0" by simp
  then have "sint x = 0" by (simp add: sint_scast_long)
  then have "(word_of_int (sint x) :: s32) = word_of_int 0" by simp
  then show "x = 0" by simp
qed simp

lemma sint_gyro_product:
  "sint ((scast (x :: s32) :: s64) * 767603923) = sint x * 767603923"
proof -
  have "sint (767603923 :: s64) = 767603923" by simp
  then have "sint ((scast x :: s64) * 767603923)
      = signed_take_bit 63 (sint x * 767603923)"
    by (simp add: sint_word_mult sint_scast_long)
  also have "\<dots> = sint x * 767603923"
    using sint_long_range [of x] by (intro signed_take_bit_int_eq_self) simp_all
  finally show ?thesis .
qed

lemma ucast_ll_to_long: "(ucast (word_of_int k :: s64) :: s32) = word_of_int k"
  by (rule ucast_down_wi) (simp add: is_down)

lemma sint_word_of_int_long:
  "- (2 ^ 31) \<le> k \<Longrightarrow> k < 2 ^ 31 \<Longrightarrow> sint (word_of_int k :: s32) = k"
  by (simp add: sint_sbintrunc' signed_take_bit_int_eq_self)

lemma sdiv_nonneg: "0 \<le> k \<Longrightarrow> 0 < l \<Longrightarrow> (k :: int) sdiv l = k div l"
  by (simp add: signed_divide_int_def sgn_if)

text \<open>
  On every sensitivity the three scale factors are the quotients of C, truncated towards
  zero; the two of the gyroscope are then reduced to 32 bits.
\<close>

lemma gyro_sf_of_eq:
  "gyro_sf_of sens = Some (word_of_int (sint sens * 767603923 sdiv 2 ^ 30))"
proof -
  have "sint (1073741824 :: s64) = 2 ^ 30" by simp
  then show ?thesis
    by (simp add: gyro_sf_of_def ll_div_def sint_gyro_product ucast_ll_to_long)
qed

lemma gyro_sf_recip_eq:
  "sens \<noteq> 0 \<Longrightarrow> gyro_sf_recip sens = Some (word_of_int (23832619764371 sdiv sint sens))"
proof -
  assume nz: "sens \<noteq> 0"
  have a: "sint (23832619764371 :: s64) = 23832619764371" by simp
  show ?thesis
    using nz by (simp add: gyro_sf_recip_def ll_div_def scast_long_eq_0 a sint_scast_long
        ucast_ll_to_long)
qed

lemma accel_sf_of_eq:
  "sens \<noteq> 0 \<Longrightarrow> accel_sf_of sens = Some (word_of_int (2 ^ 30 sdiv sint sens))"
proof -
  assume nz: "sens \<noteq> 0"
  have a: "sint (1073741824 :: s32) = 2 ^ 30" by simp
  show ?thesis
    using nz by (simp add: accel_sf_of_def long_div_def a)
qed

lemma gyro_sf_of_floor:
  assumes "0 \<le> sint sens"
  shows "map_option sint (gyro_sf_of sens) = Some (sint sens * 767603923 div 2 ^ 30)"
proof -
  let ?q = "sint sens * 767603923 div 2 ^ 30"
  have sd: "sint sens * 767603923 sdiv 2 ^ 30 = ?q"
    using assms by (intro sdiv_nonneg) simp_all
  have "0 \<le> ?q" using assms by (simp add: pos_imp_zdiv_nonneg_iff)
  moreover have "?q \<le> 2147483647 * 767603923 div 2 ^ 30"
    using sint_long_range [of sens] by (intro zdiv_mono1) simp_all
  then have "?q < 2 ^ 31" by simp
  ultimately have "sint (word_of_int ?q :: s32) = ?q"
    by (intro sint_word_of_int_long) simp_all
  with sd show ?thesis by (simp add: gyro_sf_of_eq)
qed

lemma gyro_sf_recip_floor:
  assumes "11098 \<le> sint sens"
  shows "map_option sint (gyro_sf_recip sens) = Some (23832619764371 div sint sens)"
proof -
  let ?q = "23832619764371 div sint sens"
  from assms have nz: "sens \<noteq> 0" by auto
  have sd: "23832619764371 sdiv sint sens = ?q"
    using assms by (intro sdiv_nonneg) simp_all
  have "?q \<le> 23832619764371 div 11098"
    using assms by (intro zdiv_mono2) simp_all
  then have "?q < 2 ^ 31" by simp
  moreover have "0 \<le> ?q" using assms by (simp add: pos_imp_zdiv_nonneg_iff)
  ultimately have "sint (word_of_int ?q :: s32) = ?q"
    by (intro sint_word_of_int_long) simp_all
  with sd show ?thesis by (simp add: gyro_sf_recip_eq [OF nz])
qed

lemma accel_sf_of_floor:
  assumes "0 < sint sens"
  shows "map_option uint (accel_sf_of sens) = Some (2 ^ 30 div sint sens)"
proof -
  let ?q = "2 ^ 30 div sint sens"
  from assms have nz: "sens \<noteq> 0" by auto
  have sd: "2 ^ 30 sdiv sint sens = ?q"
    using assms by (intro sdiv_nonneg) simp_all
  have "?q \<le> 2 ^ 30 div 1"
    using assms by (intro zdiv_mono2) simp_all
  then have "?q < 2 ^ 32" by simp
  moreover have "0 \<le> ?q" using assms by (simp add: pos_imp_zdiv_nonneg_iff)
  ultimately have "uint (word_of_int ?q :: u32) = ?q"
    by (simp add: uint_word_of_int)
  with sd show ?thesis by (simp add: accel_sf_of_eq [OF nz])
qed

text \<open>
  A gyroscope calibration that succeeds has stored the first scale factor in
  \<open>inv_obj.gyro_sf\<close> and has written both, as big-endian words, in its last two writes.
\<close>

lemma gyro_calibration_scale_factors:
  assumes "inv_set_gyro_calibration e rng orientation s = Some (INV_SUCCESS, s')"
  shows "gyro_sf_of (gyro_sens (inv_obj s')) = Some (gyro_sf (inv_obj s'))
       \<and> (\<exists>sf evs. gyro_sf_recip (gyro_sens (inv_obj s')) = Some sf
            \<and> trace s' = trace s @ evs
                 @ [Set_mpu_memory KEY_D_0_104 4
                      (take 4 (inv_int32_to_big8 (gyro_sf (inv_obj s')) [])),
                    Set_mpu_memory KEY_D_0_24 4 (take 4 (inv_int32_to_big8 sf []))])"
  using assms
  by (auto simp: inv_set_gyro_calibration_def Let_def inv_set_mpu_memory_def
      inv_int32_to_big8_def
      split: option.splits if_splits prod.splits)

subsection \<open>The axis dominance on rows with a single axis\<close>

text \<open>
  On a row with at most one entry that is not zero, which is every row of a mounting
  matrix that maps axes to axes, the source and the specification's reading agree.
\<close>

lemma gyro_row_dominance_single_axis:
  assumes "(o1 = 0 \<and> o2 = 0) \<or> (o0 = 0 \<and> o2 = 0) \<or> (o0 = 0 \<and> o1 = 0)"
  shows "gyro_row_dominance o0 o1 o2 = dominant_axis_spec o0 o1 o2"
  using assms
  by (auto simp: gyro_row_dominance_def dominant_axis_spec_def ABS_def Let_def)

text \<open>
  On the rows of \<open>gyro_orient\<close> that come from entries -1, 0 and 1, the source and the
  specification's reading differ only where the first and the third entry are not zero
  and the second one is.
\<close>

lemma gyro_row_dominance_unit_rows:
  assumes "o0 \<in> {0, 1073741824, - 1073741824}" "o1 \<in> {0, 1073741824, - 1073741824}"
    "o2 \<in> {0, 1073741824, - 1073741824}"
    and "\<not> (o0 \<noteq> 0 \<and> o1 = 0 \<and> o2 \<noteq> 0)"
  shows "gyro_row_dominance o0 o1 o2 = dominant_axis_spec o0 o1 o2"
  using assms
  by (elim insertE emptyE; simp add: gyro_row_dominance_def dominant_axis_spec_def ABS_def)

subsection \<open>Sensor masks\<close>

lemma or_two_of_three:
  fixes x y z :: "'a::len word"
  assumes "z \<noteq> 0" "x AND z = 0" "y AND z = 0"
  shows "x OR y \<noteq> x OR y OR z"
proof
  assume eq: "x OR y = x OR y OR z"
  have "(x OR y OR z) AND z = z"
    by (simp add: bit_eq_iff bit_simps) blast
  moreover have "(x OR y) AND z = 0"
    using assms(2,3) by (simp add: bit.conj_disj_distrib2)
  ultimately show False using eq assms(1) by simp
qed

subsection \<open>What the accelerometer calibration changes\<close>

lemma accel_fcfg_frame:
  assumes "accel_fcfg e scale orientation s = Some (result, s')"
  shows "accel_sens (inv_obj s') = accel_sens (inv_obj s)
       \<and> (\<exists>evs. trace s' = trace s @ evs
             \<and> (\<forall>n buf. Set_mpu_memory KEY_D_0_108 n buf \<notin> set evs))"
  using assms
  by (auto simp: accel_fcfg_def Let_def inv_set_mpu_memory_def
      split: option.splits if_splits prod.splits)

lemma accel_scale_factor_unfold:
  "accel_scale_factor e scale orientation s =
     (let s0 = (if f_is_zero e scale then s\<lparr>inv_obj := (inv_obj s)\<lparr>accel_sens := 0\<rparr>\<rparr> else s)
      in case accel (dl_config s) of
           None \<Rightarrow> None
         | Some acc \<Rightarrow>
             (case (if slave_id acc \<noteq> 0 then accel_fcfg e scale orientation s0
                    else Some (INV_SUCCESS, s0)) of
                None \<Rightarrow> None
              | Some (r1, s1) \<Rightarrow>
                  if r1 \<noteq> INV_SUCCESS then Some (r1, s1)
                  else
                    (case accel_sf_of (accel_sens (inv_obj s1)) of
                       None \<Rightarrow> None
                     | Some sf \<Rightarrow>
                         Some (inv_set_mpu_memory e KEY_D_0_108 2
                           [ucast (drop_bit 8 sf AND 0xff), ucast (sf AND 0xff), 0, 0] s1))))"
  by (cases "f_is_zero e scale")
    (simp_all add: accel_scale_factor_def Let_def split: option.splits prod.splits)

lemma accel_scale_factor_frame:
  assumes "accel_scale_factor e scale orientation s = Some (result, s')"
  shows "accel_sens (inv_obj s') = (if f_is_zero e scale then 0 else accel_sens (inv_obj s))
       \<and> (\<exists>evs. trace s' = trace s @ evs
             \<and> (\<forall>n buf. Set_mpu_memory KEY_D_0_108 n buf \<in> set evs \<longrightarrow>
                   n = 2 \<and> (\<exists>sf. accel_sf_of (accel_sens (inv_obj s')) = Some sf
                     \<and> buf = [ucast (drop_bit 8 sf AND 0xff), ucast (sf AND 0xff)])))
       \<and> (result = INV_SUCCESS \<longrightarrow>
             (\<exists>sf. accel_sf_of (accel_sens (inv_obj s')) = Some sf
                \<and> last (trace s') = Set_mpu_memory KEY_D_0_108 2
                     [ucast (drop_bit 8 sf AND 0xff), ucast (sf AND 0xff)]))"
proof -
  define s0 where "s0 = (if f_is_zero e scale then s\<lparr>inv_obj := (inv_obj s)\<lparr>accel_sens := 0\<rparr>\<rparr> else s)"
  have s0: "accel_sens (inv_obj s0) = (if f_is_zero e scale then 0 else accel_sens (inv_obj s))"
    "trace s0 = trace s"
    by (simp_all add: s0_def)
  note unf = assms [unfolded accel_scale_factor_unfold Let_def, folded s0_def]
  from unf obtain acc where acc: "accel (dl_config s) = Some acc"
    by (auto split: option.splits)
  define mid where "mid = (if slave_id acc \<noteq> 0 then accel_fcfg e scale orientation s0
                    else Some (INV_SUCCESS, s0))"
  from unf acc obtain r1 s1 where mid: "mid = Some (r1, s1)"
    by (auto simp: mid_def split: option.splits)
  have fr: "accel_sens (inv_obj s1) = accel_sens (inv_obj s0)
       \<and> (\<exists>evs. trace s1 = trace s0 @ evs
             \<and> (\<forall>n buf. Set_mpu_memory KEY_D_0_108 n buf \<notin> set evs))"
  proof (cases "slave_id acc \<noteq> 0")
    case True
    with mid show ?thesis using accel_fcfg_frame [of e scale orientation s0 r1 s1]
      by (simp add: mid_def)
  next
    case False
    with mid show ?thesis by (simp add: mid_def)
  qed
  then obtain evs where evs: "trace s1 = trace s @ evs"
      "\<forall>n buf. Set_mpu_memory KEY_D_0_108 n buf \<notin> set evs"
    using s0 by auto
  from unf acc mid have rest:
    "(if r1 \<noteq> INV_SUCCESS then Some (r1, s1)
      else (case accel_sf_of (accel_sens (inv_obj s1)) of
              None \<Rightarrow> None
            | Some sf \<Rightarrow>
                Some (inv_set_mpu_memory e KEY_D_0_108 2
                  [ucast (drop_bit 8 sf AND 0xff), ucast (sf AND 0xff), 0, 0] s1)))
     = Some (result, s')"
    by (simp add: mid_def)
  show ?thesis
  proof (cases "r1 = INV_SUCCESS")
    case False
    with rest have "result = r1" "s' = s1" by simp_all
    with fr s0 evs False show ?thesis by auto
  next
    case True
    with rest obtain sf where sf: "accel_sf_of (accel_sens (inv_obj s1)) = Some sf"
      and res: "inv_set_mpu_memory e KEY_D_0_108 2
                 [ucast (drop_bit 8 sf AND 0xff), ucast (sf AND 0xff), 0, 0] s1 = (result, s')"
      by (auto split: option.splits)
    from res have s': "inv_obj s' = inv_obj s1"
      "trace s' = trace s1 @ [Set_mpu_memory KEY_D_0_108 2
                     [ucast (drop_bit 8 sf AND 0xff), ucast (sf AND 0xff)]]"
      by (auto simp: inv_set_mpu_memory_def)
    with fr s0 evs sf show ?thesis by auto
  qed
qed

text \<open>
  What a call of \<open>inv_set_accel_calibration\<close> that returns has done to \<open>accel_sens\<close> and has
  written to \<open>KEY_D_0_108\<close>.
\<close>

lemma accel_calibration_frame:
  assumes "inv_set_accel_calibration e rng orientation s = Some (result, s')"
  shows "(\<not> f_is_zero e (f_div e rng (f_of_int e 32768)) \<longrightarrow>
            accel_sens (inv_obj s') = accel_sens (inv_obj s))
       \<and> (f_is_zero e (f_div e rng (f_of_int e 32768)) \<and> state s = INV_STATE_DMP_OPENED
            \<and> (inv_dmpkey_supported e KEY_D_1_152 \<longrightarrow>
                 set_mpu_memory_result e (trace s) KEY_D_1_152 4 [0, 0, 0, 0] = INV_SUCCESS) \<longrightarrow>
            accel_sens (inv_obj s') = 0)
       \<and> (\<exists>evs. trace s' = trace s @ evs
             \<and> (\<forall>n buf. Set_mpu_memory KEY_D_0_108 n buf \<in> set evs \<longrightarrow>
                   n = 2 \<and> (\<exists>sf. accel_sf_of (accel_sens (inv_obj s')) = Some sf
                     \<and> buf = [ucast (drop_bit 8 sf AND 0xff), ucast (sf AND 0xff)])))
       \<and> (result = INV_SUCCESS \<longrightarrow>
             (\<exists>sf. accel_sf_of (accel_sens (inv_obj s')) = Some sf
                \<and> last (trace s') = Set_mpu_memory KEY_D_0_108 2
                     [ucast (drop_bit 8 sf AND 0xff), ucast (sf AND 0xff)]))"
proof (cases "state s = INV_STATE_DMP_OPENED")
  case False
  with assms have "s' = s" "result = INV_ERROR_SM_IMPROPER_STATE"
    by (simp_all add: inv_set_accel_calibration_def Let_def)
  with False show ?thesis by simp
next
  case True
  let ?scale = "f_div e rng (f_of_int e 32768)"
  show ?thesis
  proof (cases "inv_dmpkey_supported e KEY_D_1_152")
    case False
    with True assms have "accel_scale_factor e ?scale orientation s = Some (result, s')"
      by (simp add: inv_set_accel_calibration_def Let_def)
    from accel_scale_factor_frame [OF this] False show ?thesis by auto
  next
    case sup: True
    define s1 where "s1 = snd (inv_set_mpu_memory e KEY_D_1_152 4 [0, 0, 0, 0] s)"
    have s1: "inv_obj s1 = inv_obj s"
      "trace s1 = trace s @ [Set_mpu_memory KEY_D_1_152 4 [0, 0, 0, 0]]"
      by (simp_all add: s1_def inv_set_mpu_memory_def)
    show ?thesis
    proof (cases "set_mpu_memory_result e (trace s) KEY_D_1_152 4 [0, 0, 0, 0] = INV_SUCCESS")
      case False
      with True sup assms have "s' = s1" "result \<noteq> INV_SUCCESS"
        by (auto simp: inv_set_accel_calibration_def Let_def s1_def inv_set_mpu_memory_def)
      with s1 False sup show ?thesis by auto
    next
      case ok: True
      with True sup assms have "accel_scale_factor e ?scale orientation s1 = Some (result, s')"
        by (auto simp: inv_set_accel_calibration_def Let_def s1_def inv_set_mpu_memory_def)
      from accel_scale_factor_frame [OF this] s1 show ?thesis by auto
    qed
  qed
qed

text \<open>
  The call returns when the accelerometer is configured and, if its \<open>id\<close> is not zero, no
  row of the matrix is a row of zeros: then no group is 7 and every read of \<open>tmp\<close> is
  within its three entries.
\<close>

lemma inv_row_2_scale_cases: "inv_row_2_scale mtx off \<in> {0, 4, 1, 5, 2, 6, 7}"
  by (simp add: inv_row_2_scale_def)

lemma scalar_group_index:
  fixes g0 g1 g2 :: u16
  assumes "g0 \<in> {0, 4, 1, 5, 2, 6}" "g1 \<in> {0, 4, 1, 5, 2, 6}" "g2 \<in> {0, 4, 1, 5, 2, 6}"
  shows "unat (((g0 OR push_bit 3 g1) OR push_bit 6 g2) AND 3) < 3
       \<and> unat (drop_bit 3 ((g0 OR push_bit 3 g1) OR push_bit 6 g2) AND 3) < 3
       \<and> unat (drop_bit 6 ((g0 OR push_bit 3 g1) OR push_bit 6 g2) AND 3) < 3"
  using assms by (elim insertE emptyE; simp)

lemma accel_fcfg_returns:
  assumes "inv_row_2_scale orientation 0 \<noteq> 7" "inv_row_2_scale orientation 3 \<noteq> 7"
    "inv_row_2_scale orientation 6 \<noteq> 7"
  shows "\<exists>result s'. accel_fcfg e scale orientation s = Some (result, s')"
proof -
  let ?orient = "inv_orientation_matrix_to_scalar orientation"
  let ?tmp = "[DINA4C e, DINACD e, DINA6C e]"
  have g: "inv_row_2_scale orientation 0 \<in> {0, 4, 1, 5, 2, 6}"
    "inv_row_2_scale orientation 3 \<in> {0, 4, 1, 5, 2, 6}"
    "inv_row_2_scale orientation 6 \<in> {0, 4, 1, 5, 2, 6}"
    using assms inv_row_2_scale_cases [of orientation 0] inv_row_2_scale_cases [of orientation 3]
      inv_row_2_scale_cases [of orientation 6] by auto
  have idx: "unat (?orient AND 3) < 3" "unat (drop_bit 3 ?orient AND 3) < 3"
    "unat (drop_bit 6 ?orient AND 3) < 3"
    using scalar_group_index [OF g]
    unfolding inv_orientation_matrix_to_scalar_def Let_def by blast+
  have rd: "array_read ?tmp (unat (?orient AND 3)) = Some (?tmp ! unat (?orient AND 3))"
    "array_read ?tmp (unat (drop_bit 3 ?orient AND 3))
       = Some (?tmp ! unat (drop_bit 3 ?orient AND 3))"
    "array_read ?tmp (unat (drop_bit 6 ?orient AND 3))
       = Some (?tmp ! unat (drop_bit 6 ?orient AND 3))"
    using idx by (simp_all add: array_read_def)
  show ?thesis
    unfolding accel_fcfg_def Let_def rd option.case
    by (simp add: case_prod_beta)
qed

lemma accel_sf_of_defined: "accel_sf_of sens \<noteq> None"
  by (cases "sens = 0") (simp_all add: accel_sf_of_eq, simp add: accel_sf_of_def)

lemma accel_scale_factor_returns:
  assumes acc: "accel (dl_config s) = Some acc"
    and rows: "slave_id acc \<noteq> 0 \<longrightarrow>
       inv_row_2_scale orientation 0 \<noteq> 7 \<and> inv_row_2_scale orientation 3 \<noteq> 7
       \<and> inv_row_2_scale orientation 6 \<noteq> 7"
  shows "\<exists>result s'. accel_scale_factor e scale orientation s = Some (result, s')"
proof -
  define s0 where "s0 = (if f_is_zero e scale then s\<lparr>inv_obj := (inv_obj s)\<lparr>accel_sens := 0\<rparr>\<rparr> else s)"
  obtain r1 s1 where mid: "(if slave_id acc \<noteq> 0 then accel_fcfg e scale orientation s0
                    else Some (INV_SUCCESS, s0)) = Some (r1, s1)"
    using rows accel_fcfg_returns [of orientation e scale s0] by (cases "slave_id acc \<noteq> 0") auto
  obtain sf where sf: "accel_sf_of (accel_sens (inv_obj s1)) = Some sf"
    using accel_sf_of_defined [of "accel_sens (inv_obj s1)"] by auto
  have "accel_scale_factor e scale orientation s =
     (if r1 \<noteq> INV_SUCCESS then Some (r1, s1)
      else Some (inv_set_mpu_memory e KEY_D_0_108 2
             [ucast (drop_bit 8 sf AND 0xff), ucast (sf AND 0xff), 0, 0] s1))"
    unfolding accel_scale_factor_unfold Let_def s0_def [symmetric]
    by (simp add: acc mid sf)
  then show ?thesis
    by (cases "inv_set_mpu_memory e KEY_D_0_108 2
             [ucast (drop_bit 8 sf AND 0xff), ucast (sf AND 0xff), 0, 0] s1") auto
qed

lemma accel_calibration_returns:
  assumes acc: "accel (dl_config s) = Some acc"
    and rows: "slave_id acc \<noteq> 0 \<longrightarrow>
       inv_row_2_scale orientation 0 \<noteq> 7 \<and> inv_row_2_scale orientation 3 \<noteq> 7
       \<and> inv_row_2_scale orientation 6 \<noteq> 7"
  shows "\<exists>result s'. inv_set_accel_calibration e rng orientation s = Some (result, s')"
proof -
  let ?scale = "f_div e rng (f_of_int e 32768)"
  let ?s1 = "snd (inv_set_mpu_memory e KEY_D_1_152 4 [0, 0, 0, 0] s)"
  have "dl_config ?s1 = dl_config s" by (simp add: inv_set_mpu_memory_def)
  with acc have acc1: "accel (dl_config ?s1) = Some acc" by simp
  from accel_scale_factor_returns [OF acc rows, of e ?scale]
    accel_scale_factor_returns [OF acc1 rows, of e ?scale]
  show ?thesis
    by (auto simp: inv_set_accel_calibration_def Let_def case_prod_beta)
qed

subsection \<open>The loop over the callback registry\<close>

text \<open>
  When \<open>N\<close> callbacks are registered, the loop started at \<open>kk\<close> calls the entries \<open>kk\<close> to
  \<open>N - 1\<close> in order, each once and each on the context that the one before it has left,
  and leaves the registry as it was.
\<close>

lemma run_dmp_interupt_cb_from:
  assumes "sint (numInterruptProcesses (mlxCallbackInterrupt s)) = int N"
    and "N \<le> length (processInterruptCb (mlxCallbackInterrupt s))"
    and "0 \<notin> set (take N (processInterruptCb (mlxCallbackInterrupt s)))"
    and "kk \<le> N"
  shows "\<exists>s'. inv_run_dmp_interupt_cb_from e kk s = Some s'
          \<and> trace s' = trace s
               @ map (\<lambda>k. Interrupt_cb k (processInterruptCb (mlxCallbackInterrupt s) ! k)) [kk..<N]
          \<and> inv_obj s' = callbacks_context e (trace s)
               (map (\<lambda>k. (k, processInterruptCb (mlxCallbackInterrupt s) ! k)) [kk..<N])
               (inv_obj s)
          \<and> mlxCallbackInterrupt s' = mlxCallbackInterrupt s
          \<and> state s' = state s \<and> dl_config s' = dl_config s"
  using assms
proof (induction "N - kk" arbitrary: kk s)
  case 0
  then have "kk = N" by simp
  with "0.prems"(1) show ?case
    by (subst inv_run_dmp_interupt_cb_from.simps) simp
next
  case (Suc d)
  let ?cbs = "processInterruptCb (mlxCallbackInterrupt s)"
  from Suc.hyps(2) have lt: "kk < N" by simp
  with Suc.prems(2) have inb: "kk < length ?cbs" by simp
  from lt inb have "?cbs ! kk \<in> set (take N ?cbs)"
    by (metis length_take min.absorb2 Suc.prems(2) nth_mem nth_take)
  with Suc.prems(3) have nz: "?cbs ! kk \<noteq> 0" by metis
  define s2 where "s2 = s\<lparr>inv_obj := interrupt_cb_effect e (trace s) (?cbs ! kk) (inv_obj s),
                         trace := trace s @ [Interrupt_cb kk (?cbs ! kk)]\<rparr>"
  have s2: "mlxCallbackInterrupt s2 = mlxCallbackInterrupt s" "state s2 = state s"
    "dl_config s2 = dl_config s" "trace s2 = trace s @ [Interrupt_cb kk (?cbs ! kk)]"
    "inv_obj s2 = interrupt_cb_effect e (trace s) (?cbs ! kk) (inv_obj s)"
    by (simp_all add: s2_def)
  have step: "inv_run_dmp_interupt_cb_from e kk s = inv_run_dmp_interupt_cb_from e (kk + 1) s2"
    using lt inb nz Suc.prems(1)
    by (subst inv_run_dmp_interupt_cb_from.simps) (simp add: array_read_def s2_def)
  have "d = N - (kk + 1)" using Suc.hyps(2) by simp
  from Suc.hyps(1) [OF this, of s2] Suc.prems lt s2
  obtain s' where s': "inv_run_dmp_interupt_cb_from e (kk + 1) s2 = Some s'"
    "trace s' = trace s2 @ map (\<lambda>k. Interrupt_cb k (?cbs ! k)) [kk + 1..<N]"
    "inv_obj s' = callbacks_context e (trace s2) (map (\<lambda>k. (k, ?cbs ! k)) [kk + 1..<N])
                    (inv_obj s2)"
    "mlxCallbackInterrupt s' = mlxCallbackInterrupt s" "state s' = state s"
    "dl_config s' = dl_config s"
    by auto
  have "[kk..<N] = kk # [kk + 1..<N]" using lt by (simp add: upt_conv_Cons)
  with s' s2 step show ?case by simp
qed

lemma trace_update_aux1_interrupt:
  "\<exists>evs. trace (update_aux1_interrupt e s) = trace s @ evs \<and> filter is_Interrupt_cb evs = []"
  by (simp add: update_aux1_interrupt_def inv_get_interrupt_trigger_def
      inv_clear_interrupt_trigger_def Let_def)

lemma frame_update_aux1_interrupt:
  "mlxCallbackInterrupt (update_aux1_interrupt e s) = mlxCallbackInterrupt s"
  "inv_obj (update_aux1_interrupt e s) = inv_obj s"
  by (simp_all add: update_aux1_interrupt_def inv_get_interrupt_trigger_def
      inv_clear_interrupt_trigger_def Let_def)

section \<open>The claims\<close>

subsection \<open>C1: applying the calibration before the DMP is opened\<close>

text \<open>
  Claim C1, as amended. For every recognised full-scale setting and every state below
  \<open>DMP_OPENED\<close>, \<open>inv_apply_calibration\<close> returns \<open>INV_SUCCESS\<close> and writes no device memory:
  no call to a collaborator is added to the trace, and the lifecycle state and the
  configuration are as before. The three calibration operations are behind the test
  \<open>inv_get_state() == INV_STATE_DMP_OPENED\<close>, and the function ends with
  \<open>return INV_SUCCESS\<close>.
\<close>

theorem apply_calibration_before_dmp_opened:
  assumes "full_scale (dl_config s)
             \<in> {MPU_FS_250DPS, MPU_FS_500DPS, MPU_FS_1000DPS, MPU_FS_2000DPS}"
    and "state_ord (state s) < state_ord INV_STATE_DMP_OPENED"
  shows "\<exists>s'. inv_apply_calibration e s = Some (INV_SUCCESS, s')
          \<and> trace s' = trace s \<and> state s' = state s \<and> dl_config s' = dl_config s"
proof -
  from assms(2) have ns: "state s \<noteq> INV_STATE_DMP_OPENED" by auto
  from assms(1) obtain g where g: "gyroScale_of e (full_scale (dl_config s)) = Some g"
    by (auto simp: gyroScale_of_def)
  show ?thesis
    using ns g by (simp add: inv_apply_calibration_def Let_def)
qed

text \<open>The theorem of C1 on the example platform, with the serial link opened.\<close>

theorem apply_calibration_before_dmp_opened_witness:
  "\<exists>s'. inv_apply_calibration example_env (example_state INV_STATE_SERIAL_OPENED)
          = Some (INV_SUCCESS, s')
        \<and> trace s' = trace (example_state INV_STATE_SERIAL_OPENED)
        \<and> state s' = state (example_state INV_STATE_SERIAL_OPENED)
        \<and> dl_config s' = dl_config (example_state INV_STATE_SERIAL_OPENED)"
  using apply_calibration_before_dmp_opened
    [of "example_state INV_STATE_SERIAL_OPENED" example_env]
  by (simp add: example_state_def example_cfg_def)

text \<open>
  Claim C1 as the specification states it fails: with the full-scale setting
  \<open>MPU_FS_2000DPS\<close> and the state \<open>SERIAL_OPENED\<close>, which is below \<open>DMP_OPENED\<close>, the result
  is \<open>INV_SUCCESS\<close>, not \<open>INV_ERROR_SM_IMPROPER_STATE\<close>.
\<close>

theorem apply_calibration_not_improper_state:
  "full_scale (dl_config (example_state INV_STATE_SERIAL_OPENED)) = MPU_FS_2000DPS
   \<and> state_ord (state (example_state INV_STATE_SERIAL_OPENED))
       < state_ord INV_STATE_DMP_OPENED
   \<and> map_option fst
       (inv_apply_calibration example_env (example_state INV_STATE_SERIAL_OPENED))
       = Some INV_SUCCESS"
  by (simp add: inv_apply_calibration_def Let_def gyroScale_of_def
      example_state_def example_cfg_def)

subsection \<open>C2: the orientation scalar of the identity matrix\<close>

text \<open>
  Claim C2, as amended. The identity matrix \<open>{1,0,0,0,1,0,0,0,1}\<close> is encoded as the
  orientation scalar 136, in binary \<open>010_001_000\<close>: row 0 gives the group 0, row 1 the
  group 1 and row 2 the group 2, as the comment in the source lists it.
\<close>

theorem identity_matrix_scalar:
  "inv_orientation_matrix_to_scalar [1, 0, 0, 0, 1, 0, 0, 0, 1] = 136"
  by (simp add: inv_orientation_matrix_to_scalar_def inv_row_2_scale_def)

text \<open>
  Claim C2 as the specification states it fails: the scalar of the identity matrix is
  not 0.
\<close>

theorem identity_matrix_scalar_not_zero:
  "inv_orientation_matrix_to_scalar [1, 0, 0, 0, 1, 0, 0, 0, 1] \<noteq> 0"
  by (simp add: inv_orientation_matrix_to_scalar_def inv_row_2_scale_def)

subsection \<open>C3: a row of zeros\<close>

text \<open>
  Claim C3, as amended. For a row whose three entries are zero, the three entries of
  \<open>gyro_orient\<close> are zero and the axis-dominance encoding of the gyroscope selects the axis
  index 0 with no sign flag; \<open>inv_row_2_scale\<close> returns for such a row, wherever it lies in
  the matrix, the group 7, which the source marks as an error: its two low bits are 3,
  which is no axis, and its sign bit is set.
\<close>

theorem zero_row_encoding:
  "double_to_long (sint (0 :: s8) * 2 ^ 30) = Some 0
   \<and> gyro_row_dominance 0 0 0 = (0, 0)
   \<and> inv_row_2_scale (before @ [0, 0, 0] @ after) (length before) = 7
   \<and> (7 :: u16) AND 3 = 3 \<and> (7 :: u16) AND 4 = 4"
  by (simp add: double_to_long_def gyro_row_dominance_def ABS_def inv_row_2_scale_def
      nth_append)

text \<open>
  Claim C3 as the specification states it fails: on the row of zeros the gyroscope
  encoding does not select the axis index 2, and the group of the accelerometer is not
  the code 2 of the axis 2 without sign.
\<close>

theorem zero_row_not_axis_2:
  "fst (gyro_row_dominance 0 0 0) \<noteq> 2 \<and> inv_row_2_scale [0, 0, 0] 0 \<noteq> 2"
  by (simp add: gyro_row_dominance_def ABS_def inv_row_2_scale_def)

subsection \<open>C4: the axis dominance of the gyroscope\<close>

text \<open>
  Claim C4 says that in the axis-dominance encoding of a row the selected axis is the
  entry of largest magnitude, the lower index on a tie, and that the sign flag is set
  exactly when that entry is negative. Here the source is run on the row \<open>(1, 0, 1)\<close> of the
  matrix \<open>{1,0,1, 0,1,0, 0,0,1}\<close>, whose entries of \<open>gyro_orient\<close> are \<open>2^30\<close>, 0 and \<open>2^30\<close>.
  The source compares the third entry with the second one, not with the entry selected so
  far, and selects the axis 2, although the magnitude of the third entry is not larger
  than that of the first; the claim keeps the axis 0. The first opcode written to
  \<open>KEY_FCFG_1\<close> is then \<open>DINACB\<close>, that of the axis 2, and not \<open>DINAC9\<close>. On the row
  \<open>(-1, 0, 1)\<close> the source selects the axis 2 without sign, the claim the axis 0 with the
  sign flag.
\<close>

theorem gyro_row_dominance_tie:
  "double_to_long (sint (1 :: s8) * 2 ^ 30) = Some 1073741824
   \<and> gyro_row_dominance 1073741824 0 1073741824 = (2, 0)
   \<and> dominant_axis_spec 1073741824 0 1073741824 = (0, 0)
   \<and> take 3 (gyro_fcfg_regs example_env
        [1073741824, 0, 1073741824, 0, 1073741824, 0, 0, 0, 1073741824])
       = [DINACB example_env, DINA2C example_env, DINACB example_env]
   \<and> double_to_long (sint (- 1 :: s8) * 2 ^ 30) = Some (- 1073741824)
   \<and> gyro_row_dominance (- 1073741824) 0 1073741824 = (2, 0)
   \<and> dominant_axis_spec (- 1073741824) 0 1073741824 = (0, 1)"
  by (simp add: double_to_long_def gyro_row_dominance_def dominant_axis_spec_def ABS_def
      gyro_fcfg_regs_def gyro_fcfg_row_def example_env_def eval_nat_numeral)

subsection \<open>C5: the scale factors\<close>

text \<open>
  Claim C5, as amended. With a 64-bit intermediate product, \<open>gyro_sf\<close> is
  \<open>floor(gyro_sens * 767603923 / 2^30)\<close> when \<open>gyro_sens\<close> is not negative; the second factor
  \<open>sf\<close> is \<open>floor(23832619764371 / gyro_sens)\<close> when \<open>gyro_sens\<close> is at least 11098, so that
  the quotient fits the 32 bits of \<open>sf\<close>, and 0 when \<open>gyro_sens\<close> is 0; the factor of the
  accelerometer is \<open>floor(2^30 / accel_sens)\<close> when \<open>accel_sens\<close> is positive and 0 when it
  is 0. No sensitivity makes any of the three divide by zero: none of them is undefined.
\<close>

theorem scale_factor_formulas:
  "(0 \<le> sint gs \<longrightarrow>
      map_option sint (gyro_sf_of gs) = Some (sint gs * 767603923 div 2 ^ 30))
   \<and> (11098 \<le> sint gs \<longrightarrow>
      map_option sint (gyro_sf_recip gs) = Some (23832619764371 div sint gs))
   \<and> gyro_sf_recip 0 = Some 0
   \<and> (0 < sint acs \<longrightarrow> map_option uint (accel_sf_of acs) = Some (2 ^ 30 div sint acs))
   \<and> accel_sf_of 0 = Some 0
   \<and> gyro_sf_of gs \<noteq> None \<and> gyro_sf_recip gs \<noteq> None \<and> accel_sf_of acs \<noteq> None"
proof -
  have "gyro_sf_recip gs \<noteq> None"
    by (cases "gs = 0") (simp_all add: gyro_sf_recip_eq, simp add: gyro_sf_recip_def)
  moreover have "accel_sf_of acs \<noteq> None"
    by (cases "acs = 0") (simp_all add: accel_sf_of_eq, simp add: accel_sf_of_def)
  moreover have "gyro_sf_recip 0 = Some 0" "accel_sf_of 0 = Some 0"
    by (simp_all add: gyro_sf_recip_def accel_sf_of_def)
  moreover have "gyro_sf_of gs \<noteq> None"
    by (simp add: gyro_sf_of_eq)
  ultimately show ?thesis
    using gyro_sf_of_floor [of gs] gyro_sf_recip_floor [of gs] accel_sf_of_floor [of acs]
    by blast
qed

text \<open>
  The theorem of C5 at \<open>gyro_sens = 65536000\<close>, the sensitivity of the range of 2000 degrees
  per second, and \<open>accel_sens = 65536\<close>.
\<close>

theorem scale_factor_formulas_witness:
  "map_option sint (gyro_sf_of 65536000) = Some 46850825
   \<and> map_option sint (gyro_sf_recip 65536000) = Some 363656
   \<and> map_option uint (accel_sf_of 65536) = Some 16384"
  using scale_factor_formulas [of 65536000 65536] by simp

text \<open>
  Claim C5 as the specification states it fails. At \<open>gyro_sens = 1\<close> the quotient
  23832619764371 does not fit the 32 bits of \<open>sf\<close>, which holds -153761133. At
  \<open>gyro_sens = -1\<close> the quotient of C is truncated to 0, and the floor of
  \<open>-767603923 / 2^30\<close> is -1. At \<open>accel_sens = -3\<close> the unsigned \<open>sf\<close> holds 3937053355, and
  the floor of \<open>2^30 / -3\<close> is -357913942.
\<close>

theorem scale_factors_not_floor:
  "map_option sint (gyro_sf_recip 1) = Some (- 153761133)
   \<and> (23832619764371 :: int) div 1 = 23832619764371
   \<and> map_option sint (gyro_sf_of (- 1)) = Some 0
   \<and> (- 1 * 767603923 :: int) div 2 ^ 30 = - 1
   \<and> map_option uint (accel_sf_of (- 3)) = Some 3937053355
   \<and> (2 ^ 30 :: int) div (- 3) = - 357913942"
  by (simp add: gyro_sf_recip_def gyro_sf_of_def accel_sf_of_def ll_div_def long_div_def
      signed_divide_int_def)

subsection \<open>C6: the calibration operations outside the state \<open>DMP_OPENED\<close>\<close>

text \<open>
  Claim C6, as amended. In any state other than \<open>DMP_OPENED\<close> the calibration of the
  gyroscope and that of the accelerometer return \<open>INV_ERROR_SM_IMPROPER_STATE\<close> and change
  nothing. The calibration of the compass has no state check: it returns \<open>INV_SUCCESS\<close> in
  every state. Its only caller, \<open>inv_apply_calibration\<close>, calls it in the state \<open>DMP_OPENED\<close>
  only.
\<close>

theorem calibration_outside_dmp_opened:
  assumes "state s \<noteq> INV_STATE_DMP_OPENED"
  shows "inv_set_gyro_calibration e rng orientation s = Some (INV_ERROR_SM_IMPROPER_STATE, s)
       \<and> inv_set_accel_calibration e rng orientation s = Some (INV_ERROR_SM_IMPROPER_STATE, s)
       \<and> fst (inv_set_compass_calibration e rng orientation s) = INV_SUCCESS"
  using assms
  by (simp add: inv_set_gyro_calibration_def inv_set_accel_calibration_def
      inv_set_compass_calibration_def Let_def)

text \<open>The theorem of C6 on the example platform, with the DMP started.\<close>

theorem calibration_outside_dmp_opened_witness:
  "inv_set_gyro_calibration example_env 2000 [1, 0, 0, 0, 1, 0, 0, 0, 1]
       (example_state INV_STATE_DMP_STARTED)
     = Some (INV_ERROR_SM_IMPROPER_STATE, example_state INV_STATE_DMP_STARTED)
   \<and> inv_set_accel_calibration example_env 2000 [1, 0, 0, 0, 1, 0, 0, 0, 1]
       (example_state INV_STATE_DMP_STARTED)
     = Some (INV_ERROR_SM_IMPROPER_STATE, example_state INV_STATE_DMP_STARTED)
   \<and> fst (inv_set_compass_calibration example_env 2000 [1, 0, 0, 0, 1, 0, 0, 0, 1]
       (example_state INV_STATE_DMP_STARTED)) = INV_SUCCESS"
  using calibration_outside_dmp_opened
    [of "example_state INV_STATE_DMP_STARTED" example_env 2000 "[1, 0, 0, 0, 1, 0, 0, 0, 1]"]
  by (simp add: example_state_def)

text \<open>
  Claim C6 as the specification states it fails: with the serial link closed, the
  calibration of the compass returns \<open>INV_SUCCESS\<close>.
\<close>

theorem compass_calibration_serial_closed:
  "state (example_state INV_STATE_SERIAL_CLOSED) \<noteq> INV_STATE_DMP_OPENED
   \<and> fst (inv_set_compass_calibration example_env 2000 [1, 0, 0, 0, 1, 0, 0, 0, 1]
          (example_state INV_STATE_SERIAL_CLOSED)) = INV_SUCCESS"
  by (simp add: inv_set_compass_calibration_def Let_def example_state_def)

subsection \<open>C7: two of the three accelerometer axes\<close>

text \<open>
  Claim C7. Let \<open>x\<close>, \<open>y\<close> and \<open>z\<close> be the masks of the three accelerometer axes: not zero,
  pairwise disjoint, together \<open>INV_THREE_AXIS_ACCEL\<close>. When the requested mask covers exactly
  two of them, \<open>inv_set_mpu_sensors\<close> in any state from \<open>DMP_OPENED\<close> on returns
  \<open>INV_ERROR_FEATURE_NOT_IMPLEMENTED\<close> and leaves the whole state as it was, in particular
  \<open>requested_sensors\<close>; no collaborator is called.
\<close>

theorem set_mpu_sensors_two_accel_axes:
  assumes st: "state_ord INV_STATE_DMP_OPENED \<le> state_ord (state s)"
    and three: "INV_THREE_AXIS_ACCEL e = x OR y OR z"
    and nz: "x \<noteq> 0" "y \<noteq> 0" "z \<noteq> 0"
    and dis: "x AND y = 0" "x AND z = 0" "y AND z = 0"
    and two: "sensors AND INV_THREE_AXIS_ACCEL e \<in> {x OR y, x OR z, y OR z}"
  shows "inv_set_mpu_sensors e sensors s = (INV_ERROR_FEATURE_NOT_IMPLEMENTED, s)"
proof -
  have a: "x OR y \<noteq> x OR y OR z"
    using or_two_of_three [of z x y] nz dis by simp
  have "x OR z \<noteq> x OR z OR y"
    using or_two_of_three [of y x z] nz dis by (simp add: and.commute)
  then have b: "x OR z \<noteq> x OR y OR z"
    by (simp add: or.assoc or.commute or.left_commute)
  have "y OR z \<noteq> y OR z OR x"
    using or_two_of_three [of x y z] nz dis by (simp add: and.commute)
  then have c: "y OR z \<noteq> x OR y OR z"
    by (simp add: or.assoc or.commute or.left_commute)
  have ne: "sensors AND INV_THREE_AXIS_ACCEL e \<noteq> INV_THREE_AXIS_ACCEL e"
    using two a b c three by auto
  have "x OR y \<noteq> 0" "x OR z \<noteq> 0" "y OR z \<noteq> 0"
    using nz by (simp_all add: or_eq_0_iff)
  then have n0: "sensors AND INV_THREE_AXIS_ACCEL e \<noteq> 0"
    using two by auto
  from st have "\<not> state_ord (state s) < state_ord INV_STATE_DMP_OPENED"
    by simp
  with ne n0 show ?thesis
    by (simp add: inv_set_mpu_sensors_def Let_def)
qed

text \<open>
  The theorem of C7 on the example platform, with the DMP started: the axis masks are
  \<open>0x10\<close>, \<open>0x20\<close> and \<open>0x40\<close>, and the mask \<open>0x30\<close> requests the first two.
\<close>

theorem set_mpu_sensors_two_accel_axes_witness:
  "inv_set_mpu_sensors example_env 0x0030 (example_state INV_STATE_DMP_STARTED)
     = (INV_ERROR_FEATURE_NOT_IMPLEMENTED, example_state INV_STATE_DMP_STARTED)"
  using set_mpu_sensors_two_accel_axes
    [of "example_state INV_STATE_DMP_STARTED" example_env "0x10" "0x20" "0x40" "0x30"]
  by (simp add: example_state_def example_env_def)

subsection \<open>C8: the data pump below the state \<open>DMP_STARTED\<close>\<close>

text \<open>
  Claim C8. In every state below \<open>DMP_STARTED\<close>, \<open>inv_update_data\<close> returns
  \<open>INV_ERROR_SM_IMPROPER_STATE\<close> and leaves the whole state as it was: the trace is the same,
  so the FIFO has not been read and no callback has been called.
\<close>

theorem update_data_below_started:
  "state_ord (state s) < state_ord INV_STATE_DMP_STARTED \<Longrightarrow>
   inv_update_data e s = Some (INV_ERROR_SM_IMPROPER_STATE, s)"
  by (auto simp: inv_update_data_def)

text \<open>The theorem of C8 on the example platform, with the DMP opened.\<close>

theorem update_data_below_started_witness:
  "state_ord (state (example_state INV_STATE_DMP_OPENED)) < state_ord INV_STATE_DMP_STARTED \<and>
   inv_update_data example_env (example_state INV_STATE_DMP_OPENED)
     = Some (INV_ERROR_SM_IMPROPER_STATE, example_state INV_STATE_DMP_OPENED)"
  using update_data_below_started [of "example_state INV_STATE_DMP_OPENED" example_env]
  by (simp add: example_state_def)

subsection \<open>C9: the callbacks of the primary interrupt\<close>

text \<open>
  Claim C9. Let \<open>N\<close> callbacks be registered: \<open>numInterruptProcesses\<close> is \<open>N\<close>, \<open>N\<close> is at most the
  capacity of the registry, and its first \<open>N\<close> entries are not null. When \<open>inv_update_data\<close>
  runs in the state \<open>DMP_STARTED\<close>, the FIFO is read with success and the primary interrupt
  source is found to have fired, then \<open>inv_update_data\<close> returns, and between the clearing of
  the primary source and the query of the FIFO status it has called the entries 0 to
  \<open>N - 1\<close> of the registry, in this order, each exactly once. These are all the callback
  calls of the run. Each call passes \<open>inv_obj\<close>, the context, to the callback: the first
  callback receives the context that the processing of the FIFO has left, every later one
  the context that the callback before it has left, and the context at the return is the
  one that the last callback has left. A callback is taken to change nothing but the
  context it receives.
\<close>

theorem update_data_runs_callbacks:
  assumes started: "state s = INV_STATE_DMP_STARTED"
    and fifo: "inv_read_and_process_fifo e (update_ftry e s) s = (INV_SUCCESS, s1)"
    and fired: "fst (inv_get_interrupt_trigger e INTSRC_MPU (update_aux1_interrupt e s1)) \<noteq> 0"
    and num: "sint (numInterruptProcesses (mlxCallbackInterrupt s)) = int N"
    and cap: "N \<le> length (processInterruptCb (mlxCallbackInterrupt s))"
    and reg: "0 \<notin> set (take N (processInterruptCb (mlxCallbackInterrupt s)))"
  shows "\<exists>result s'. inv_update_data e s = Some (result, s')
          \<and> trace s' = trace (update_aux1_interrupt e s1)
               @ [Get_interrupt_trigger INTSRC_MPU, Clear_interrupt_trigger INTSRC_MPU]
               @ map (\<lambda>kk. Interrupt_cb kk (processInterruptCb (mlxCallbackInterrupt s) ! kk)) [0..<N]
               @ [Get_fifo_status]
          \<and> filter is_Interrupt_cb (drop (length (trace s)) (trace s'))
               = map (\<lambda>kk. Interrupt_cb kk (processInterruptCb (mlxCallbackInterrupt s) ! kk)) [0..<N]
          \<and> inv_obj s' = callbacks_context e
               (trace (update_aux1_interrupt e s1)
                  @ [Get_interrupt_trigger INTSRC_MPU, Clear_interrupt_trigger INTSRC_MPU])
               (map (\<lambda>kk. (kk, processInterruptCb (mlxCallbackInterrupt s) ! kk)) [0..<N])
               (inv_obj s1)"
proof -
  let ?cbs = "processInterruptCb (mlxCallbackInterrupt s)"
  let ?calls = "map (\<lambda>kk. Interrupt_cb kk (?cbs ! kk)) [0..<N]"
  define s2 where "s2 = update_aux1_interrupt e s1"
  define s3 where "s3 = inv_clear_interrupt_trigger e INTSRC_MPU
                          (snd (inv_get_interrupt_trigger e INTSRC_MPU s2))"
  from fifo have s1: "mlxCallbackInterrupt s1 = mlxCallbackInterrupt s"
    "trace s1 = trace s @ [Read_and_process_fifo (update_ftry e s)]"
    by (auto simp: inv_read_and_process_fifo_def)
  have s2: "mlxCallbackInterrupt s2 = mlxCallbackInterrupt s" "inv_obj s2 = inv_obj s1"
    by (simp_all add: s2_def frame_update_aux1_interrupt s1)
  obtain evs where evs: "trace s2 = trace s1 @ evs" "filter is_Interrupt_cb evs = []"
    using trace_update_aux1_interrupt [of e s1] by (auto simp: s2_def)
  have s3: "mlxCallbackInterrupt s3 = mlxCallbackInterrupt s"
    "trace s3 = trace s2 @ [Get_interrupt_trigger INTSRC_MPU, Clear_interrupt_trigger INTSRC_MPU]"
    "inv_obj s3 = inv_obj s1"
    by (simp_all add: s3_def s2 inv_get_interrupt_trigger_def inv_clear_interrupt_trigger_def)
  from run_dmp_interupt_cb_from [of s3 N 0 e] num cap reg s3
  obtain s4 where s4: "inv_run_dmp_interupt_cb e s3 = Some s4"
    "trace s4 = trace s3 @ ?calls"
    "inv_obj s4 = callbacks_context e (trace s3) (map (\<lambda>kk. (kk, ?cbs ! kk)) [0..<N]) (inv_obj s1)"
    by (auto simp: inv_run_dmp_interupt_cb_def)
  have upd: "inv_update_data e s = Some (inv_get_fifo_status e s4)"
    using started fifo fired s4
    by (simp add: inv_update_data_def Let_def s2_def s3_def case_prod_beta)
  have tr: "trace (snd (inv_get_fifo_status e s4)) = trace s4 @ [Get_fifo_status]"
    "inv_obj (snd (inv_get_fifo_status e s4)) = inv_obj s4"
    by (simp_all add: inv_get_fifo_status_def)
  have filt: "filter is_Interrupt_cb ?calls = ?calls"
    by (simp add: filter_map comp_def)
  have "filter is_Interrupt_cb
          (drop (length (trace s)) (trace (snd (inv_get_fifo_status e s4)))) = ?calls"
    by (simp add: tr s4 s3 evs s1 filt)
  moreover have "trace (snd (inv_get_fifo_status e s4))
      = trace s2 @ [Get_interrupt_trigger INTSRC_MPU, Clear_interrupt_trigger INTSRC_MPU]
          @ ?calls @ [Get_fifo_status]"
    by (simp add: tr s4 s3)
  moreover have "inv_obj (snd (inv_get_fifo_status e s4))
      = callbacks_context e
          (trace s2 @ [Get_interrupt_trigger INTSRC_MPU, Clear_interrupt_trigger INTSRC_MPU])
          (map (\<lambda>kk. (kk, ?cbs ! kk)) [0..<N]) (inv_obj s1)"
    by (simp add: tr s4 s3)
  ultimately show ?thesis
    using upd by (cases "inv_get_fifo_status e s4") (auto simp: s2_def)
qed

text \<open>
  The theorem of C9 on the example platform, with the DMP started: the two registered
  callbacks, at the addresses 7 and 9, are called once each, in this order, and each has
  incremented the \<open>no_motion_accel_time\<close> of the context it received, which is 2 at the
  return.
\<close>

theorem update_data_runs_callbacks_witness:
  "\<exists>result s'. inv_update_data example_env (example_state INV_STATE_DMP_STARTED)
       = Some (result, s')
     \<and> filter is_Interrupt_cb
         (drop (length (trace (example_state INV_STATE_DMP_STARTED))) (trace s'))
       = [Interrupt_cb 0 7, Interrupt_cb 1 9]
     \<and> inv_obj s' = example_obj\<lparr>no_motion_accel_time := 2\<rparr>"
proof -
  let ?s = "example_state INV_STATE_DMP_STARTED"
  let ?s1 = "?s\<lparr>trace := [Read_and_process_fifo 1]\<rparr>"
  have started: "state ?s = INV_STATE_DMP_STARTED"
    by (simp add: example_state_def)
  have fifo: "inv_read_and_process_fifo example_env (update_ftry example_env ?s) ?s
                = (INV_SUCCESS, ?s1)"
    by (simp add: inv_read_and_process_fifo_def update_ftry_def example_env_def
        example_state_def example_cfg_def)
  have fired: "fst (inv_get_interrupt_trigger example_env INTSRC_MPU
                 (update_aux1_interrupt example_env ?s1)) \<noteq> 0"
    by (simp add: inv_get_interrupt_trigger_def example_env_def)
  have num: "sint (numInterruptProcesses (mlxCallbackInterrupt ?s)) = int 2"
    by (simp add: example_state_def)
  have cap: "2 \<le> length (processInterruptCb (mlxCallbackInterrupt ?s))"
    by (simp add: example_state_def)
  have reg: "0 \<notin> set (take 2 (processInterruptCb (mlxCallbackInterrupt ?s)))"
    by (simp add: example_state_def)
  have calls: "map (\<lambda>kk. Interrupt_cb kk (processInterruptCb (mlxCallbackInterrupt ?s) ! kk))
                 [0..<2] = [Interrupt_cb 0 7, Interrupt_cb 1 9]"
    by (simp add: example_state_def upt_rec)
  have entries: "map (\<lambda>kk. (kk, processInterruptCb (mlxCallbackInterrupt ?s) ! kk)) [0..<2]
                   = [(0, 7), (1, 9)]"
    by (simp add: example_state_def upt_rec)
  have ctx: "callbacks_context example_env tr [(0, 7), (1, 9)] (inv_obj ?s1)
               = example_obj\<lparr>no_motion_accel_time := 2\<rparr>" for tr
    by (simp add: example_env_def example_state_def example_obj_def)
  from update_data_runs_callbacks [OF started fifo fired num cap reg]
  show ?thesis
    unfolding calls entries ctx by blast
qed

subsection \<open>C10: the accelerometer calibration and \<open>accel_sens\<close>\<close>

text \<open>
  Claim C10, as amended. Let the accelerometer be configured and, if its \<open>id\<close> is not
  zero, let no row of the orientation matrix be a row of zeros. Then a call of
  \<open>inv_set_accel_calibration\<close> returns. When the call is made in the state \<open>DMP_OPENED\<close>, the
  reset of \<open>KEY_D_1_152\<close>, made when that key is supported, succeeds, and the scale
  \<open>range / 32768.f\<close> compares equal to 0, it sets \<open>accel_sens\<close> to 0; when the scale does not
  compare equal to 0, it leaves \<open>accel_sens\<close> as it was. Every write to \<open>KEY_D_0_108\<close> that the
  call makes carries the two low bytes, high byte first, of the scale factor computed from
  \<open>accel_sens\<close> as it then stands, which is the value that was there before the call or 0,
  and not a value computed from the range argument; a call that succeeds ends with this
  write.
\<close>

theorem accel_calibration_keeps_accel_sens:
  assumes acc: "accel (dl_config s) = Some acc"
    and rows: "slave_id acc \<noteq> 0 \<longrightarrow>
       inv_row_2_scale orientation 0 \<noteq> 7 \<and> inv_row_2_scale orientation 3 \<noteq> 7
       \<and> inv_row_2_scale orientation 6 \<noteq> 7"
  shows "\<exists>result s'. inv_set_accel_calibration e rng orientation s = Some (result, s')
       \<and> (\<not> f_is_zero e (f_div e rng (f_of_int e 32768)) \<longrightarrow>
            accel_sens (inv_obj s') = accel_sens (inv_obj s))
       \<and> (f_is_zero e (f_div e rng (f_of_int e 32768)) \<and> state s = INV_STATE_DMP_OPENED
            \<and> (inv_dmpkey_supported e KEY_D_1_152 \<longrightarrow>
                 set_mpu_memory_result e (trace s) KEY_D_1_152 4 [0, 0, 0, 0] = INV_SUCCESS) \<longrightarrow>
            accel_sens (inv_obj s') = 0)
       \<and> (\<exists>evs. trace s' = trace s @ evs
             \<and> (\<forall>n buf. Set_mpu_memory KEY_D_0_108 n buf \<in> set evs \<longrightarrow>
                   n = 2 \<and> (\<exists>sf. accel_sf_of (accel_sens (inv_obj s')) = Some sf
                     \<and> buf = [ucast (drop_bit 8 sf AND 0xff), ucast (sf AND 0xff)])))
       \<and> (result = INV_SUCCESS \<longrightarrow>
             (\<exists>sf. accel_sf_of (accel_sens (inv_obj s')) = Some sf
                \<and> last (trace s') = Set_mpu_memory KEY_D_0_108 2
                     [ucast (drop_bit 8 sf AND 0xff), ucast (sf AND 0xff)]))"
proof -
  from accel_calibration_returns [OF acc rows, of e rng]
  obtain result s' where run: "inv_set_accel_calibration e rng orientation s = Some (result, s')"
    by blast
  show ?thesis
    by (rule exI [of _ result], rule exI [of _ s'])
      (rule conjI [OF run accel_calibration_frame [OF run]])
qed

text \<open>
  The theorem of C10 on the example platform, with the DMP opened and \<open>accel_sens = 65536\<close>:
  with the range 2 the sensitivity stays 65536 and the scale factor written is 16384,
  the bytes 64 and 0; with the range 0 the sensitivity becomes 0.
\<close>

theorem accel_calibration_keeps_accel_sens_witness:
  "map_option (accel_sens \<circ> inv_obj \<circ> snd)
     (inv_set_accel_calibration example_env 2 [1, 0, 0, 0, 1, 0, 0, 0, 1]
        (example_state INV_STATE_DMP_OPENED))
     = Some (accel_sens (inv_obj (example_state INV_STATE_DMP_OPENED)))
   \<and> map_option (last \<circ> trace \<circ> snd)
     (inv_set_accel_calibration example_env 2 [1, 0, 0, 0, 1, 0, 0, 0, 1]
        (example_state INV_STATE_DMP_OPENED))
     = Some (Set_mpu_memory KEY_D_0_108 2 [64, 0])
   \<and> map_option (accel_sens \<circ> inv_obj \<circ> snd)
     (inv_set_accel_calibration example_env 0 [1, 0, 0, 0, 1, 0, 0, 0, 1]
        (example_state INV_STATE_DMP_OPENED))
     = Some 0"
proof -
  let ?s = "example_state INV_STATE_DMP_OPENED"
  let ?m = "[1, 0, 0, 0, 1, 0, 0, 0, 1] :: s8 list"
  have run2: "inv_set_accel_calibration example_env 2 ?m ?s
    = Some (INV_SUCCESS,
        ?s\<lparr>inv_obj := example_obj\<lparr>accel_cal := [65536, 0, 0, 0, 65536, 0, 0, 0, 65536]\<rparr>,
           trace := [Set_mpu_memory KEY_D_1_152 4 [0, 0, 0, 0],
                     Set_mpu_memory KEY_FCFG_2 3 [76, 205, 108],
                     Set_mpu_memory KEY_FCFG_7 3 [38, 70, 102],
                     Set_mpu_memory KEY_D_0_108 2 [64, 0]]\<rparr>)"
    by (simp add: inv_set_accel_calibration_def accel_scale_factor_def accel_fcfg_def
        inv_set_mpu_memory_def accel_sf_of_def long_div_def array_read_def
        inv_orientation_matrix_to_scalar_def inv_row_2_scale_def
        example_env_def example_state_def example_obj_def example_cfg_def Let_def upt_rec)
  have run0: "inv_set_accel_calibration example_env 0 ?m ?s
    = Some (INV_SUCCESS,
        ?s\<lparr>inv_obj := example_obj
                \<lparr>accel_sens := 0, accel_cal := [0, 0, 0, 0, 0, 0, 0, 0, 0]\<rparr>,
           trace := [Set_mpu_memory KEY_D_1_152 4 [0, 0, 0, 0],
                     Set_mpu_memory KEY_FCFG_2 3 [76, 205, 108],
                     Set_mpu_memory KEY_FCFG_7 3 [38, 70, 102],
                     Set_mpu_memory KEY_D_0_108 2 [0, 0]]\<rparr>)"
    by (simp add: inv_set_accel_calibration_def accel_scale_factor_def accel_fcfg_def
        inv_set_mpu_memory_def accel_sf_of_def long_div_def array_read_def
        inv_orientation_matrix_to_scalar_def inv_row_2_scale_def
        example_env_def example_state_def example_obj_def example_cfg_def Let_def upt_rec)
  have acc: "accel (dl_config ?s) = Some \<lparr>slave_id = 1, slave_range = \<lparr>mantissa = 2, fraction = 0\<rparr>\<rparr>"
    by (simp add: example_state_def example_cfg_def)
  have rows: "slave_id \<lparr>slave_id = 1, slave_range = \<lparr>mantissa = 2, fraction = 0\<rparr>\<rparr> \<noteq> 0 \<longrightarrow>
       inv_row_2_scale ?m 0 \<noteq> 7 \<and> inv_row_2_scale ?m 3 \<noteq> 7 \<and> inv_row_2_scale ?m 6 \<noteq> 7"
    by (simp add: inv_row_2_scale_def)
  have d2: "inv_set_accel_calibration example_env 2 ?m ?s \<noteq> None"
    using accel_calibration_keeps_accel_sens [OF acc rows, of example_env 2] by blast
  have d0: "inv_set_accel_calibration example_env 0 ?m ?s \<noteq> None"
    using accel_calibration_keeps_accel_sens [OF acc rows, of example_env 0] by blast
  from d2 d0 show ?thesis
    unfolding run2 run0
    by (simp add: example_state_def example_obj_def)
qed

text \<open>
  Claim C10 as it is stated fails: a call with the range 0 does not always set \<open>accel_sens\<close>
  to 0. On the example platform the scale of the range 0 compares equal to 0 and
  \<open>accel_sens\<close> is 65536. With the DMP started the call returns
  \<open>INV_ERROR_SM_IMPROPER_STATE\<close> at its state check and leaves the state as it was. With the
  DMP opened and a device whose writes fail, the call returns the error of the reset of
  \<open>KEY_D_1_152\<close>, and \<open>accel_sens\<close> is still 65536.
\<close>

theorem accel_calibration_range_zero_keeps_accel_sens:
  "f_is_zero example_env (f_div example_env 0 (f_of_int example_env 32768))
   \<and> accel_sens (inv_obj (example_state INV_STATE_DMP_STARTED)) = 65536
   \<and> inv_set_accel_calibration example_env 0 [1, 0, 0, 0, 1, 0, 0, 0, 1]
        (example_state INV_STATE_DMP_STARTED)
       = Some (INV_ERROR_SM_IMPROPER_STATE, example_state INV_STATE_DMP_STARTED)
   \<and> map_option fst
        (inv_set_accel_calibration
           (example_env\<lparr>set_mpu_memory_result := \<lambda>tr key len buf. INV_ERROR 5\<rparr>)
           0 [1, 0, 0, 0, 1, 0, 0, 0, 1] (example_state INV_STATE_DMP_OPENED))
       = Some (INV_ERROR 5)
   \<and> map_option (accel_sens \<circ> inv_obj \<circ> snd)
        (inv_set_accel_calibration
           (example_env\<lparr>set_mpu_memory_result := \<lambda>tr key len buf. INV_ERROR 5\<rparr>)
           0 [1, 0, 0, 0, 1, 0, 0, 0, 1] (example_state INV_STATE_DMP_OPENED))
       = Some 65536"
  by (simp add: inv_set_accel_calibration_def inv_set_mpu_memory_def Let_def
      example_env_def example_state_def example_obj_def)

end
